theory Spec2Isabelle
  imports Main "HOL-Library.Multiset"
begin

section \<open>JavaScript strings and values\<close>

text \<open>
  A JavaScript string is modelled as a \<open>string\<close>: a list of code units, here the
  units below 256. \<open>length\<close> is the \<open>.length\<close> of the source, the empty list is the
  only falsy string.
\<close>

text \<open>The white space \<open>String.prototype.trim\<close> removes, among the units below 256.\<close>

definition isWhiteSpace :: "char \<Rightarrow> bool" where
  "isWhiteSpace c =
     (c = CHR 0x09 \<or> c = CHR 0x0A \<or> c = CHR 0x0B \<or> c = CHR 0x0C \<or> c = CHR 0x0D
      \<or> c = CHR 0x20 \<or> c = CHR 0xA0)"

definition trim :: "string \<Rightarrow> string" where
  "trim s = rev (dropWhile isWhiteSpace (rev (dropWhile isWhiteSpace s)))"

text \<open>\<open>s.startsWith(p)\<close> and \<open>s.includes(p)\<close>.\<close>

definition startsWith :: "string \<Rightarrow> string \<Rightarrow> bool" where
  "startsWith s p = (take (length p) s = p)"

fun includes_str :: "string \<Rightarrow> string \<Rightarrow> bool" where
  "includes_str [] p = (p = [])"
| "includes_str (c # cs) p = (startsWith (c # cs) p \<or> includes_str cs p)"

text \<open>\<open>s.replace(/\/$/, "")\<close>: one slash at the very end of the string is removed.\<close>

definition stripTrailingSlash :: "string \<Rightarrow> string" where
  "stripTrailingSlash s = (if s \<noteq> [] \<and> last s = CHR ''/'' then butlast s else s)"

text \<open>\<open>a || b\<close> on two strings: the first when it is truthy.\<close>

definition or_else :: "string \<Rightarrow> string \<Rightarrow> string" where
  "or_else a b = (if a \<noteq> [] then a else b)"

text \<open>
  \<open>v || d\<close> for a \<open>v\<close> that is a string or absent (\<open>undefined\<close> for an environment
  value \<open>process.env.X\<close>, \<open>null\<close> for a missing header): \<open>d\<close> for the absent and for
  the empty string.
\<close>

definition opt_or :: "string option \<Rightarrow> string \<Rightarrow> string" where
  "opt_or v d = (case v of None \<Rightarrow> d | Some s \<Rightarrow> or_else s d)"

text \<open>Decimal digits of a number, as a template literal prints a non-negative integer.\<close>

definition digit :: "nat \<Rightarrow> char" where
  "digit d = ''0123456789'' ! d"

fun show_nat :: "nat \<Rightarrow> string" where
  "show_nat n = (if n < 10 then [digit n] else show_nat (n div 10) @ [digit (n mod 10)])"

text \<open>
  The relation \<open>a < b\<close> of the source on two strings: the first differing code unit
  decides, and a proper prefix is smaller.
\<close>

fun str_lt :: "string \<Rightarrow> string \<Rightarrow> bool" where
  "str_lt [] [] = False"
| "str_lt [] (b # bs) = True"
| "str_lt (a # as) [] = False"
| "str_lt (a # as) (b # bs) =
     (if a = b then str_lt as bs else (of_char a :: nat) < of_char b)"

text \<open>
  \<open>encodeURIComponent\<close>: the unreserved characters stay, every other unit is written
  as the \<open>%XX\<close> escapes of its UTF-8 bytes (one byte below 128, two from 128 to 255).
\<close>

definition unreserved :: "char \<Rightarrow> bool" where
  "unreserved c =
     (c \<in> set ''ABCDEFGHIJKLMNOPQRSTUVWXYZabcdefghijklmnopqrstuvwxyz0123456789-_.!~*()''
      \<or> c = CHR 0x27)"

definition hex_digit :: "nat \<Rightarrow> char" where
  "hex_digit d = ''0123456789ABCDEF'' ! d"

definition pct :: "nat \<Rightarrow> string" where
  "pct b = [CHR ''%'', hex_digit (b div 16), hex_digit (b mod 16)]"

definition encode_unit :: "char \<Rightarrow> string" where
  "encode_unit c =
     (let u = (of_char c :: nat) in
      if unreserved c then [c]
      else if u < 128 then pct u
      else pct (192 + u div 64) @ pct (128 + u mod 64))"

definition encodeURIComponent :: "string \<Rightarrow> string" where
  "encodeURIComponent s = concat (map encode_unit s)"

text \<open>
  The values \<open>JSON.parse\<close> produces. A number is kept as the text \<open>String\<close> gives for
  it (\<open>1\<close>, \<open>0.5\<close>, \<open>1e+21\<close>), which is never empty and tells two numbers apart
  but for the sign of zero; the source does nothing else with a number. An object
  lists its fields with each key once, as \<open>JSON.parse\<close> leaves them. \<open>undefined\<close> is
  not a JSON value: a value that may be \<open>undefined\<close> is a \<open>json option\<close>, \<open>None\<close> being
  \<open>undefined\<close>.
\<close>

datatype json =
    JNull
  | JBool bool
  | JNum string
  | JStr string
  | JArr "json list"
  | JObj "(string \<times> json) list"

text \<open>What the engine raises or the code throws.\<close>

datatype js_error =
    TypeError
  | SyntaxError
  | QuotaExceededError
  | Error string

text \<open>
  Reading \<open>raw.k\<close> for one of the keys the source reads (\<open>id\<close>, \<open>title\<close>, \<open>content\<close>,
  \<open>createdAt\<close>, \<open>created_at\<close>, \<open>updatedAt\<close>, \<open>updated_at\<close>): \<open>null\<close> raises a TypeError,
  an object gives its field or \<open>undefined\<close>, and every other value has no such property.
\<close>

fun getProp :: "json \<Rightarrow> string \<Rightarrow> js_error + json option" where
  "getProp JNull k = Inl TypeError"
| "getProp (JObj fs) k = Inr (map_of fs k)"
| "getProp (JBool b) k = Inr None"
| "getProp (JNum i) k = Inr None"
| "getProp (JStr s) k = Inr None"
| "getProp (JArr xs) k = Inr None"

text \<open>The same read on a value that is known not to be \<open>null\<close>.\<close>

fun field_of :: "json \<Rightarrow> string \<Rightarrow> json option" where
  "field_of (JObj fs) k = map_of fs k"
| "field_of JNull k = None"
| "field_of (JBool b) k = None"
| "field_of (JNum i) k = None"
| "field_of (JStr s) k = None"
| "field_of (JArr xs) k = None"

text \<open>\<open>a ?? b\<close>: the right operand when the left is \<open>undefined\<close> or \<open>null\<close>.\<close>

definition nullish :: "json option \<Rightarrow> json option \<Rightarrow> json option" where
  "nullish a b = (case a of None \<Rightarrow> b | Some JNull \<Rightarrow> b | Some v \<Rightarrow> Some v)"

text \<open>\<open>Array.prototype.join(",")\<close> on strings already converted.\<close>

fun join_comma :: "string list \<Rightarrow> string" where
  "join_comma [] = []"
| "join_comma [s] = s"
| "join_comma (s # t # ts) = s @ CHR '','' # join_comma (t # ts)"

text \<open>
  \<open>String(v)\<close>. An array is joined with commas, its elements converted from left to
  right and a \<open>null\<close> element giving the empty string. An object gives
  \<open>[object Object]\<close>, unless it has a field \<open>toString\<close> of its own: a parsed value is
  never callable, the inherited \<open>valueOf\<close> returns the object, and the conversion
  raises a TypeError.
\<close>

fun toStr :: "json \<Rightarrow> js_error + string"
  and toStr_elems :: "json list \<Rightarrow> js_error + string list" where
  "toStr JNull = Inr ''null''"
| "toStr (JBool b) = Inr (if b then ''true'' else ''false'')"
| "toStr (JNum t) = Inr t"
| "toStr (JStr s) = Inr s"
| "toStr (JArr xs) =
     (case toStr_elems xs of Inl err \<Rightarrow> Inl err | Inr ss \<Rightarrow> Inr (join_comma ss))"
| "toStr (JObj fs) =
     (if map_of fs ''toString'' \<noteq> None then Inl TypeError else Inr ''[object Object]'')"
| "toStr_elems [] = Inr []"
| "toStr_elems (x # xs) =
     (case (if x = JNull then Inr [] else toStr x) of
        Inl err \<Rightarrow> Inl err
      | Inr s \<Rightarrow> (case toStr_elems xs of Inl err \<Rightarrow> Inl err | Inr ss \<Rightarrow> Inr (s # ss)))"

definition String_of :: "json option \<Rightarrow> js_error + string" where
  "String_of v = (case v of None \<Rightarrow> Inr ''undefined'' | Some j \<Rightarrow> toStr j)"

text \<open>\<open>Array.isArray(v)\<close>.\<close>

definition isArray :: "json \<Rightarrow> bool" where
  "isArray v = (case v of JArr xs \<Rightarrow> True | _ \<Rightarrow> False)"

text \<open>One evaluation after another: a raise of the first ends both.\<close>

definition and_then :: "js_error + 'a \<Rightarrow> ('a \<Rightarrow> js_error + 'b) \<Rightarrow> js_error + 'b" where
  "and_then r f = (case r of Inl err \<Rightarrow> Inl err | Inr x \<Rightarrow> f x)"

text \<open>\<open>xs.map(f)\<close> for an \<open>f\<close> that may raise: the first raise ends the map.\<close>

fun map_raise :: "('a \<Rightarrow> js_error + 'b) \<Rightarrow> 'a list \<Rightarrow> js_error + 'b list" where
  "map_raise f [] = Inr []"
| "map_raise f (x # xs) =
     (case f x of
        Inl e \<Rightarrow> Inl e
      | Inr y \<Rightarrow> (case map_raise f xs of Inl e \<Rightarrow> Inl e | Inr ys \<Rightarrow> Inr (y # ys)))"

section \<open>The browser: local storage, the network, the clock\<close>

text \<open>
  The item stored under the key \<open>LS_KEY\<close>, the only key either variant touches. The
  model keeps it as \<open>JSON.parse\<close> sees it: \<open>Missing\<close> when \<open>getItem\<close> gives \<open>null\<close>,
  \<open>Garbage s\<close> for a text \<open>s\<close> that is not JSON (the empty text among them), and
  \<open>Doc j\<close> for a JSON text with value \<open>j\<close>; \<open>setItem(LS_KEY, JSON.stringify(v))\<close>
  stores \<open>Doc v\<close>.
\<close>

definition LS_KEY :: string where
  "LS_KEY = ''simple-notes-app.notes.v1''"

datatype stored = Missing | Garbage string | Doc json

record request =
  rq_method :: string
  rq_url :: string
  rq_headers :: "(string \<times> string) list"
  rq_body :: "json option"

text \<open>
  A response: \<open>res.status\<close>, the \<open>content-type\<close> header, what \<open>res.text()\<close> resolves to
  (\<open>None\<close> when it rejects) and what \<open>res.json()\<close> resolves to (\<open>None\<close> when the body is
  not JSON and it rejects with a SyntaxError).
\<close>

record response =
  status :: nat
  contentType :: "string option"
  bodyText :: "string option"
  bodyJson :: "json option"

text \<open>\<open>fetch\<close> rejects (with a TypeError) when the network fails, or resolves.\<close>

datatype fetch_result = Rejected | Responded response

text \<open>
  The state an operation changes: the stored item, whether \<open>setItem\<close> is accepted (it
  raises in private mode or over quota) and the requests handed to \<open>fetch\<close> so far.
\<close>

record world =
  store :: stored
  writable :: bool
  sent :: "request list"

text \<open>
  What an operation reads from outside: the answer of the network to each request, the
  text \<open>new Date().toISOString()\<close> gives (one reading during an operation), the digits
  \<open>Math.random().toString(16).slice(2)\<close> gives, \<open>Date.now()\<close>, and the message text
  the engine puts into the errors it raises itself.
\<close>

record env =
  net :: "request \<Rightarrow> fetch_result"
  now :: string
  rnd :: string
  millis :: nat
  engine_message :: "js_error \<Rightarrow> string"

type_synonym 'a outcome = "(js_error + 'a) \<times> world"

definition fetch :: "env \<Rightarrow> request \<Rightarrow> world \<Rightarrow> response outcome" where
  "fetch e rq w =
     (case net e rq of
        Rejected \<Rightarrow> Inl TypeError
      | Responded res \<Rightarrow> Inr res,
      w\<lparr>sent := sent w @ [rq]\<rparr>)"

definition ok :: "response \<Rightarrow> bool" where
  "ok res = (200 \<le> status res \<and> status res \<le> 299)"

text \<open>\<open>await res.text().catch(() => "")\<close>.\<close>

definition text_or_empty :: "response \<Rightarrow> string" where
  "text_or_empty res = (case bodyText res of None \<Rightarrow> [] | Some t \<Rightarrow> t)"

text \<open>\<open>e.message\<close>.\<close>

definition message :: "env \<Rightarrow> js_error \<Rightarrow> string" where
  "message e err = (case err of Error m \<Rightarrow> m | _ \<Rightarrow> engine_message e err)"

text \<open>
  \<open>xs.sort(cmp)\<close>. The comparator of the source never answers 0, so the order in
  which the engine leaves two notes it does not separate is the engine's choice, and
  may differ from one sort to the next. The model inserts from the right, which is one
  such choice; what is stated below about a sorted list is that it holds the same
  elements and is ordered by the comparator, which every choice gives, and the closed
  instances sort notes with different times.
\<close>

fun insert_cmp :: "('a \<Rightarrow> 'a \<Rightarrow> int) \<Rightarrow> 'a \<Rightarrow> 'a list \<Rightarrow> 'a list" where
  "insert_cmp cmp x [] = [x]"
| "insert_cmp cmp x (y # ys) =
     (if cmp x y > 0 then y # insert_cmp cmp x ys else x # y # ys)"

fun array_sort :: "('a \<Rightarrow> 'a \<Rightarrow> int) \<Rightarrow> 'a list \<Rightarrow> 'a list" where
  "array_sort cmp [] = []"
| "array_sort cmp (x # xs) = insert_cmp cmp x (array_sort cmp xs)"

text \<open>What the editor holds: \<open>{ title, content }\<close>.\<close>

record draft =
  title :: string
  content :: string

text \<open>\<open>validateDraft\<close>, the same in both variants.\<close>

definition validateDraft :: "draft \<Rightarrow> string" where
  "validateDraft nextDraft =
     (let t = trim (or_else (title nextDraft) []);
          c = trim (or_else (content nextDraft) [])
      in if t = [] \<and> c = [] then ''Please add a title or some content.''
         else if length t > 120 then ''Title is too long (max 120 characters).''
         else [])"

text \<open>\<open>if (editingId)\<close>: \<open>null\<close> and the empty string are falsy.\<close>

definition truthy_id :: "string option \<Rightarrow> bool" where
  "truthy_id i = (case i of None \<Rightarrow> False | Some s \<Rightarrow> s \<noteq> [])"

section \<open>Variant A: API first, every failure falls back to local storage\<close>

text \<open>
  The component and data layer of \<open>src/unnamed/part_000\<close>, the variant whose
  \<open>createNote\<close> writes locally when the API fails. Names both variants use carry the
  suffix \<open>_A\<close> here and \<open>_B\<close> in the other variant.
\<close>

record note_A =
  id_A :: string
  title_A :: string
  content_A :: string
  updatedAt_A :: string
  createdAt_A :: string

text \<open>
  The base URL of \<open>App\<close>: \<open>REACT_APP_API_BASE\<close>, else \<open>REACT_APP_BACKEND_URL\<close>, else the
  empty string, with one trailing slash removed.
\<close>

definition App_apiBase :: "string option \<Rightarrow> string option \<Rightarrow> string" where
  "App_apiBase api_base backend_url =
     (let base = opt_or api_base (opt_or backend_url [])
      in stripTrailingSlash (or_else base []))"

definition generateId :: "env \<Rightarrow> string" where
  "generateId e = ''note_'' @ rnd e @ ''_'' @ show_nat (millis e)"

text \<open>
  \<open>nowIso\<close>. The source reads the clock at each call; the model takes one reading for
  all calls of one operation, so two times filled in during one operation are equal
  here where in the source they can differ by the time between the two calls.
\<close>

definition nowIso :: "env \<Rightarrow> string" where
  "nowIso e = now e"

text \<open>
  \<open>normalizeNote\<close>, the fields in the order of the object literal. The first read,
  \<open>raw.id\<close>, raises on \<open>null\<close>, and then no read can; each \<open>String\<close> can raise.
\<close>

definition normalizeNote_A :: "env \<Rightarrow> json \<Rightarrow> js_error + note_A" where
  "normalizeNote_A e raw =
     and_then (getProp raw ''id'') (\<lambda>i.
     and_then (String_of i) (\<lambda>id'.
     and_then (String_of (nullish (field_of raw ''title'') (Some (JStr [])))) (\<lambda>title'.
     and_then (String_of (nullish (field_of raw ''content'') (Some (JStr [])))) (\<lambda>content'.
     and_then (String_of (nullish (field_of raw ''updatedAt'')
                 (nullish (field_of raw ''updated_at'') (Some (JStr (nowIso e)))))) (\<lambda>updatedAt'.
     and_then (String_of (nullish (field_of raw ''createdAt'')
                 (nullish (field_of raw ''created_at'') (Some (JStr (nowIso e)))))) (\<lambda>createdAt'.
       Inr \<lparr> id_A = id', title_A = title', content_A = content',
             updatedAt_A = updatedAt', createdAt_A = createdAt' \<rparr>))))))"

text \<open>The comparator \<open>(a, b) => (a.updatedAt < b.updatedAt ? 1 : -1)\<close>.\<close>

definition byUpdatedAt :: "note_A \<Rightarrow> note_A \<Rightarrow> int" where
  "byUpdatedAt a b = (if str_lt (updatedAt_A a) (updatedAt_A b) then 1 else - 1)"

text \<open>\<open>loadLocalNotes\<close> has no handler: a text that is not JSON and a \<open>null\<close> entry raise.\<close>

definition loadLocalNotes :: "env \<Rightarrow> world \<Rightarrow> js_error + note_A list" where
  "loadLocalNotes e w =
     (case store w of
        Missing \<Rightarrow> Inr []
      | Garbage s \<Rightarrow> (if s = [] then Inr [] else Inl SyntaxError)
      | Doc parsed \<Rightarrow>
          (case parsed of
             JArr xs \<Rightarrow>
               (case map_raise (normalizeNote_A e) xs of
                  Inl err \<Rightarrow> Inl err
                | Inr ns \<Rightarrow> Inr (array_sort byUpdatedAt ns))
           | _ \<Rightarrow> Inr []))"

text \<open>What \<open>JSON.stringify\<close> writes for a note, the keys in the order of \<open>normalizeNote\<close>.\<close>

definition note_json_A :: "note_A \<Rightarrow> json" where
  "note_json_A n =
     JObj [(''id'', JStr (id_A n)), (''title'', JStr (title_A n)),
           (''content'', JStr (content_A n)), (''updatedAt'', JStr (updatedAt_A n)),
           (''createdAt'', JStr (createdAt_A n))]"

definition saveLocalNotes :: "note_A list \<Rightarrow> world \<Rightarrow> js_error + world" where
  "saveLocalNotes nextNotes w =
     (if writable w then Inr (w\<lparr>store := Doc (JArr (map note_json_A nextNotes))\<rparr>)
      else Inl QuotaExceededError)"

text \<open>\<open>tryApiFetch\<close>; a 204 gives \<open>null\<close>.\<close>

definition tryApiFetch :: "env \<Rightarrow> request \<Rightarrow> world \<Rightarrow> json outcome" where
  "tryApiFetch e rq w =
     (case fetch e rq w of
        (Inl err, w1) \<Rightarrow> (Inl err, w1)
      | (Inr res, w1) \<Rightarrow>
          if \<not> ok res then
            (let t = text_or_empty res
             in (Inl (Error (trim (''API error ('' @ show_nat (status res) @ '')''
                                    @ (if t \<noteq> [] then '': '' @ t else [])))), w1))
          else if status res = 204 then (Inr JNull, w1)
          else
            (let ct = opt_or (contentType res) []
             in if \<not> includes_str ct ''application/json'' then
                  (let t = text_or_empty res
                   in (Inl (Error (''API returned non-JSON response.''
                                    @ (if t \<noteq> [] then '' '' @ t else []))), w1))
                else (case bodyJson res of
                        None \<Rightarrow> (Inl SyntaxError, w1)
                      | Some j \<Rightarrow> (Inr j, w1))))"

definition json_headers :: "(string \<times> string) list" where
  "json_headers = [(''content-type'', ''application/json'')]"

definition draft_json :: "draft \<Rightarrow> json" where
  "draft_json d = JObj [(''title'', JStr (title d)), (''content'', JStr (content d))]"

definition apiListNotes :: "env \<Rightarrow> string \<Rightarrow> world \<Rightarrow> json outcome" where
  "apiListNotes e apiBase w =
     tryApiFetch e \<lparr> rq_method = ''GET'', rq_url = apiBase @ ''/notes'',
                      rq_headers = [], rq_body = None \<rparr> w"

definition apiCreateNote :: "env \<Rightarrow> string \<Rightarrow> draft \<Rightarrow> world \<Rightarrow> json outcome" where
  "apiCreateNote e apiBase note w =
     tryApiFetch e \<lparr> rq_method = ''POST'', rq_url = apiBase @ ''/notes'',
                      rq_headers = json_headers, rq_body = Some (draft_json note) \<rparr> w"

text \<open>\<open>apiUpdateNote\<close>: PATCH first, and PUT when the PATCH raises anything.\<close>

definition apiUpdateNote :: "env \<Rightarrow> string \<Rightarrow> string \<Rightarrow> draft \<Rightarrow> world \<Rightarrow> json outcome" where
  "apiUpdateNote e apiBase i patch w =
     (case tryApiFetch e \<lparr> rq_method = ''PATCH'',
                             rq_url = apiBase @ ''/notes/'' @ encodeURIComponent i,
                             rq_headers = json_headers,
                             rq_body = Some (draft_json patch) \<rparr> w of
        (Inr j, w1) \<Rightarrow> (Inr j, w1)
      | (Inl err, w1) \<Rightarrow>
          tryApiFetch e \<lparr> rq_method = ''PUT'',
                           rq_url = apiBase @ ''/notes/'' @ encodeURIComponent i,
                           rq_headers = json_headers,
                           rq_body = Some (draft_json patch) \<rparr> w1)"

definition apiDeleteNote :: "env \<Rightarrow> string \<Rightarrow> string \<Rightarrow> world \<Rightarrow> json outcome" where
  "apiDeleteNote e apiBase i w =
     tryApiFetch e \<lparr> rq_method = ''DELETE'',
                      rq_url = apiBase @ ''/notes/'' @ encodeURIComponent i,
                      rq_headers = [], rq_body = None \<rparr> w"

text \<open>
  \<open>loadNotes\<close>. The body of the \<open>try\<close> is \<open>loadNotes_try\<close>; the cache is written before
  the array is sorted in place, and the handler answers every raise with the local read.
\<close>

definition loadNotes_try :: "env \<Rightarrow> string \<Rightarrow> world \<Rightarrow> note_A list outcome" where
  "loadNotes_try e apiBase w =
     (case apiListNotes e apiBase w of
        (Inl err, w1) \<Rightarrow> (Inl err, w1)
      | (Inr apiNotes, w1) \<Rightarrow>
          (case (case apiNotes of
                   JArr xs \<Rightarrow> map_raise (normalizeNote_A e) xs
                 | _ \<Rightarrow> Inr []) of
             Inl err \<Rightarrow> (Inl err, w1)
           | Inr normalized \<Rightarrow>
               (case saveLocalNotes normalized w1 of
                  Inl err \<Rightarrow> (Inl err, w1)
                | Inr w2 \<Rightarrow> (Inr (array_sort byUpdatedAt normalized), w2))))"

definition loadNotes :: "env \<Rightarrow> string \<Rightarrow> world \<Rightarrow> note_A list outcome" where
  "loadNotes e apiBase w =
     (if apiBase \<noteq> [] then
        (case loadNotes_try e apiBase w of
           (Inr ns, w1) \<Rightarrow> (Inr ns, w1)
         | (Inl err, w1) \<Rightarrow> (loadLocalNotes e w1, w1))
      else (loadLocalNotes e w, w))"

text \<open>\<open>createNote\<close>: the \<open>try\<close>, and the local creation that follows when it raised.\<close>

definition createNote_try :: "env \<Rightarrow> string \<Rightarrow> draft \<Rightarrow> world \<Rightarrow> note_A outcome" where
  "createNote_try e apiBase note w =
     (case apiCreateNote e apiBase note w of
        (Inl err, w1) \<Rightarrow> (Inl err, w1)
      | (Inr created, w1) \<Rightarrow>
          (case normalizeNote_A e created of
             Inl err \<Rightarrow> (Inl err, w1)
           | Inr normalized \<Rightarrow>
               (case loadLocalNotes e w1 of
                  Inl err \<Rightarrow> (Inl err, w1)
                | Inr existing \<Rightarrow>
                    (case saveLocalNotes
                            (normalized # filter (\<lambda>n. id_A n \<noteq> id_A normalized) existing) w1 of
                       Inl err \<Rightarrow> (Inl err, w1)
                     | Inr w2 \<Rightarrow> (Inr normalized, w2)))))"

text \<open>The draft's fields are strings, so \<open>note.title ?? ""\<close> is \<open>note.title\<close>.\<close>

definition createNote_local :: "env \<Rightarrow> draft \<Rightarrow> world \<Rightarrow> note_A outcome" where
  "createNote_local e note w =
     (case normalizeNote_A e
             (JObj [(''id'', JStr (generateId e)), (''title'', JStr (title note)),
                    (''content'', JStr (content note)), (''createdAt'', JStr (nowIso e)),
                    (''updatedAt'', JStr (nowIso e))]) of
        Inl err \<Rightarrow> (Inl err, w)
      | Inr newNote \<Rightarrow>
          (case loadLocalNotes e w of
             Inl err \<Rightarrow> (Inl err, w)
           | Inr existing \<Rightarrow>
               (case saveLocalNotes (newNote # existing) w of
                  Inl err \<Rightarrow> (Inl err, w)
                | Inr w2 \<Rightarrow> (Inr newNote, w2))))"

definition createNote :: "env \<Rightarrow> string \<Rightarrow> draft \<Rightarrow> world \<Rightarrow> note_A outcome" where
  "createNote e apiBase note w =
     (if apiBase \<noteq> [] then
        (case createNote_try e apiBase note w of
           (Inr n, w1) \<Rightarrow> (Inr n, w1)
         | (Inl err, w1) \<Rightarrow> createNote_local e note w1)
      else createNote_local e note w)"

text \<open>\<open>updateNote\<close>, with \<open>{ ...found, ...patch, updatedAt: nowIso() }\<close> written out.\<close>

definition updateNote_try ::
  "env \<Rightarrow> string \<Rightarrow> string \<Rightarrow> draft \<Rightarrow> world \<Rightarrow> note_A outcome" where
  "updateNote_try e apiBase i patch w =
     (case apiUpdateNote e apiBase i patch w of
        (Inl err, w1) \<Rightarrow> (Inl err, w1)
      | (Inr updated, w1) \<Rightarrow>
          (case normalizeNote_A e updated of
             Inl err \<Rightarrow> (Inl err, w1)
           | Inr normalized \<Rightarrow>
               (case loadLocalNotes e w1 of
                  Inl err \<Rightarrow> (Inl err, w1)
                | Inr existing \<Rightarrow>
                    (case saveLocalNotes
                            (map (\<lambda>n. if id_A n = i then normalized else n) existing) w1 of
                       Inl err \<Rightarrow> (Inl err, w1)
                     | Inr w2 \<Rightarrow> (Inr normalized, w2)))))"

definition updateNote_local :: "env \<Rightarrow> string \<Rightarrow> draft \<Rightarrow> world \<Rightarrow> note_A outcome" where
  "updateNote_local e i patch w =
     (case loadLocalNotes e w of
        Inl err \<Rightarrow> (Inl err, w)
      | Inr existing \<Rightarrow>
          (case find (\<lambda>n. id_A n = i) existing of
             None \<Rightarrow> (Inl (Error ''Note not found.''), w)
           | Some found \<Rightarrow>
               (case normalizeNote_A e
                       (JObj [(''id'', JStr (id_A found)), (''title'', JStr (title patch)),
                              (''content'', JStr (content patch)),
                              (''updatedAt'', JStr (nowIso e)),
                              (''createdAt'', JStr (createdAt_A found))]) of
                  Inl err \<Rightarrow> (Inl err, w)
                | Inr updatedLocal \<Rightarrow>
                    (case saveLocalNotes
                            (map (\<lambda>n. if id_A n = i then updatedLocal else n) existing) w of
                       Inl err \<Rightarrow> (Inl err, w)
                     | Inr w2 \<Rightarrow> (Inr updatedLocal, w2)))))"

definition updateNote ::
  "env \<Rightarrow> string \<Rightarrow> string \<Rightarrow> draft \<Rightarrow> world \<Rightarrow> note_A outcome" where
  "updateNote e apiBase i patch w =
     (if apiBase \<noteq> [] then
        (case updateNote_try e apiBase i patch w of
           (Inr n, w1) \<Rightarrow> (Inr n, w1)
         | (Inl err, w1) \<Rightarrow> updateNote_local e i patch w1)
      else updateNote_local e i patch w)"

text \<open>
  \<open>deleteNote\<close>. After the remote delete the \<open>try\<close> runs the same three statements
  as the local deletion: read, filter, write.
\<close>

definition deleteNote_local :: "env \<Rightarrow> string \<Rightarrow> world \<Rightarrow> unit outcome" where
  "deleteNote_local e i w =
     (case loadLocalNotes e w of
        Inl err \<Rightarrow> (Inl err, w)
      | Inr existing \<Rightarrow>
          (case saveLocalNotes (filter (\<lambda>n. id_A n \<noteq> i) existing) w of
             Inl err \<Rightarrow> (Inl err, w)
           | Inr w2 \<Rightarrow> (Inr (), w2)))"

definition deleteNote_try :: "env \<Rightarrow> string \<Rightarrow> string \<Rightarrow> world \<Rightarrow> unit outcome" where
  "deleteNote_try e apiBase i w =
     (case apiDeleteNote e apiBase i w of
        (Inl err, w1) \<Rightarrow> (Inl err, w1)
      | (Inr j, w1) \<Rightarrow> deleteNote_local e i w1)"

definition deleteNote :: "env \<Rightarrow> string \<Rightarrow> string \<Rightarrow> world \<Rightarrow> unit outcome" where
  "deleteNote e apiBase i w =
     (if apiBase \<noteq> [] then
        (case deleteNote_try e apiBase i w of
           (Inr u, w1) \<Rightarrow> (Inr u, w1)
         | (Inl err, w1) \<Rightarrow> deleteNote_local e i w1)
      else deleteNote_local e i w)"

text \<open>The part of the component state \<open>handleSave\<close> reads and sets.\<close>

record ui_status_A =
  loading_A :: bool
  error_A :: string

record app_A =
  notes_A :: "note_A list"
  ui_A :: ui_status_A
  isEditorOpen_A :: bool
  editingId_A :: "string option"
  draft_A :: draft

definition closeEditor_A :: "app_A \<Rightarrow> app_A" where
  "closeEditor_A s =
     s\<lparr>isEditorOpen_A := False, editingId_A := None,
       draft_A := \<lparr> title = [], content = [] \<rparr>\<rparr>"

text \<open>
  \<open>handleSave\<close>: a draft that fails validation sets the error and returns before the
  data layer is called; a truthy \<open>editingId\<close> updates, anything else creates.
\<close>

definition handleSave_A :: "env \<Rightarrow> string \<Rightarrow> app_A \<Rightarrow> world \<Rightarrow> app_A \<times> world" where
  "handleSave_A e apiBase s w =
     (let validationError = validateDraft (draft_A s)
      in if validationError \<noteq> [] then
           (s\<lparr>ui_A := (ui_A s)\<lparr>error_A := validationError\<rparr>\<rparr>, w)
         else
           (case (if truthy_id (editingId_A s) then
                    (case updateNote e apiBase (opt_or (editingId_A s) []) (draft_A s) w of
                       (Inl err, w1) \<Rightarrow> (Inl err, w1)
                     | (Inr updated, w1) \<Rightarrow>
                         (Inr (map (\<lambda>n. if id_A n = id_A updated then updated else n)
                                 (notes_A s)), w1))
                  else
                    (case createNote e apiBase (draft_A s) w of
                       (Inl err, w1) \<Rightarrow> (Inl err, w1)
                     | (Inr created, w1) \<Rightarrow> (Inr (created # notes_A s), w1))) of
              (Inr nextNotes, w1) \<Rightarrow>
                (closeEditor_A
                   (s\<lparr>notes_A := nextNotes,
                      ui_A := \<lparr> loading_A = False, error_A = [] \<rparr>\<rparr>), w1)
            | (Inl err, w1) \<Rightarrow>
                (s\<lparr>ui_A := \<lparr> loading_A = False, error_A = message e err \<rparr>\<rparr>, w1)))"

section \<open>Variant B: the API, with local storage as a read-only fallback for listing\<close>

text \<open>The component and data layer of \<open>src/notes_frontend/src/App.js\<close>.\<close>

record note_B =
  id_B :: string
  title_B :: string
  content_B :: string
  createdAt_B :: string

record config =
  apiConfigured :: bool
  notesUrl :: string

text \<open>
  The configuration of \<open>App\<close>:
  \<open>{REACT_APP_BACKEND_URL}{REACT_APP_API_BASE}/notes\<close> when both parts are non-empty.
\<close>

definition App_config :: "string option \<Rightarrow> string option \<Rightarrow> config" where
  "App_config backend_url api_base =
     (let backend = stripTrailingSlash (opt_or backend_url []);
          apiBase = opt_or api_base [];
          basePath = (if apiBase \<noteq> [] then
                        (if startsWith apiBase ''/'' then apiBase else ''/'' @ apiBase)
                      else []);
          configured = (backend \<noteq> [] \<and> basePath \<noteq> [])
      in \<lparr> apiConfigured = configured,
           notesUrl = (if configured then backend @ basePath @ ''/notes'' else []) \<rparr>)"

definition normalizeNote_B :: "json \<Rightarrow> js_error + note_B" where
  "normalizeNote_B raw =
     and_then (getProp raw ''id'') (\<lambda>i.
     and_then (String_of i) (\<lambda>id'.
     and_then (String_of (nullish (field_of raw ''title'') (Some (JStr [])))) (\<lambda>title'.
     and_then (String_of (nullish (field_of raw ''content'') (Some (JStr [])))) (\<lambda>content'.
     and_then (String_of (nullish (field_of raw ''created_at'')
                 (nullish (field_of raw ''createdAt'') (Some (JStr []))))) (\<lambda>createdAt'.
       Inr \<lparr> id_B = id', title_B = title', content_B = content',
             createdAt_B = createdAt' \<rparr>)))))"

text \<open>The arrow function \<open>loadLocalNotesReadOnly\<close> maps over the parsed array.\<close>

definition cached_entry :: "json \<Rightarrow> js_error + note_B" where
  "cached_entry n =
     and_then (getProp n ''id'') (\<lambda>i.
     and_then (String_of i) (\<lambda>id'.
     and_then (String_of (nullish (field_of n ''title'') (Some (JStr [])))) (\<lambda>title'.
     and_then (String_of (nullish (field_of n ''content'') (Some (JStr [])))) (\<lambda>content'.
     and_then (String_of (nullish (field_of n ''createdAt'')
                 (nullish (field_of n ''created_at'')
                    (nullish (field_of n ''updatedAt'') (Some (JStr [])))))) (\<lambda>createdAt'.
       Inr \<lparr> id_B = id', title_B = title', content_B = content',
             createdAt_B = createdAt' \<rparr>)))))"

text \<open>
  \<open>loadLocalNotesReadOnly\<close>: the body of its \<open>try\<close>, whose filter keeps the entries with
  a truthy \<open>id\<close>, and the handler that answers every raise with the empty array.
\<close>

definition loadLocalNotesReadOnly_try :: "world \<Rightarrow> js_error + note_B list" where
  "loadLocalNotesReadOnly_try w =
     (case store w of
        Missing \<Rightarrow> Inr []
      | Garbage s \<Rightarrow> (if s = [] then Inr [] else Inl SyntaxError)
      | Doc parsed \<Rightarrow>
          (case parsed of
             JArr xs \<Rightarrow>
               (case map_raise cached_entry xs of
                  Inl err \<Rightarrow> Inl err
                | Inr ns \<Rightarrow> Inr (filter (\<lambda>n. id_B n \<noteq> []) ns))
           | _ \<Rightarrow> Inr []))"

definition loadLocalNotesReadOnly :: "world \<Rightarrow> note_B list" where
  "loadLocalNotesReadOnly w =
     (case loadLocalNotesReadOnly_try w of Inl err \<Rightarrow> [] | Inr ns \<Rightarrow> ns)"

definition note_json_B :: "note_B \<Rightarrow> json" where
  "note_json_B n =
     JObj [(''id'', JStr (id_B n)), (''title'', JStr (title_B n)),
           (''content'', JStr (content_B n)), (''createdAt'', JStr (createdAt_B n))]"

text \<open>\<open>saveLocalNotesCache\<close> ignores a write the storage refuses.\<close>

definition saveLocalNotesCache :: "note_B list \<Rightarrow> world \<Rightarrow> world" where
  "saveLocalNotesCache ns w =
     (if writable w then w\<lparr>store := Doc (JArr (map note_json_B ns))\<rparr> else w)"

definition isNetworkUnreachableError :: "js_error \<Rightarrow> bool" where
  "isNetworkUnreachableError err = (err = TypeError)"

definition listNotesFromBackend :: "env \<Rightarrow> string \<Rightarrow> world \<Rightarrow> note_B list outcome" where
  "listNotesFromBackend e url w =
     (case fetch e \<lparr> rq_method = ''GET'', rq_url = url, rq_headers = [], rq_body = None \<rparr> w of
        (Inl err, w1) \<Rightarrow> (Inl err, w1)
      | (Inr res, w1) \<Rightarrow>
          if \<not> ok res then
            (let t = text_or_empty res
             in (Inl (Error (''Failed to load notes ('' @ show_nat (status res) @ '')''
                              @ (if t \<noteq> [] then '': '' @ t else []))), w1))
          else
            (case bodyJson res of
               None \<Rightarrow> (Inl SyntaxError, w1)
             | Some j \<Rightarrow>
                 (case j of
                    JArr xs \<Rightarrow> (map_raise normalizeNote_B xs, w1)
                  | _ \<Rightarrow> (Inr [], w1))))"

definition createNoteOnBackend :: "env \<Rightarrow> string \<Rightarrow> draft \<Rightarrow> world \<Rightarrow> note_B outcome" where
  "createNoteOnBackend e url note w =
     (case fetch e \<lparr> rq_method = ''POST'', rq_url = url, rq_headers = json_headers,
                      rq_body = Some (draft_json note) \<rparr> w of
        (Inl err, w1) \<Rightarrow> (Inl err, w1)
      | (Inr res, w1) \<Rightarrow>
          if \<not> ok res then
            (let t = text_or_empty res
             in (Inl (Error (''Failed to create note ('' @ show_nat (status res) @ '')''
                              @ (if t \<noteq> [] then '': '' @ t else []))), w1))
          else
            (case bodyJson res of
               None \<Rightarrow> (Inl SyntaxError, w1)
             | Some j \<Rightarrow> (normalizeNote_B j, w1)))"

text \<open>The object \<open>{ notes, usingFallback }\<close> a listing resolves to.\<close>

record loaded =
  notes_L :: "note_B list"
  usingFallback :: bool

definition loadNotesFromApiOrFallback :: "env \<Rightarrow> string \<Rightarrow> world \<Rightarrow> loaded outcome" where
  "loadNotesFromApiOrFallback e url w =
     (if url = [] then
        (Inr \<lparr> notes_L = loadLocalNotesReadOnly w, usingFallback = True \<rparr>, w)
      else
        (case listNotesFromBackend e url w of
           (Inr backendNotes, w1) \<Rightarrow>
             (Inr \<lparr> notes_L = backendNotes, usingFallback = False \<rparr>,
              saveLocalNotesCache backendNotes w1)
         | (Inl err, w1) \<Rightarrow>
             if isNetworkUnreachableError err then
               (Inr \<lparr> notes_L = loadLocalNotesReadOnly w1, usingFallback = True \<rparr>, w1)
             else (Inl err, w1)))"

definition createNoteViaApi :: "env \<Rightarrow> string \<Rightarrow> draft \<Rightarrow> world \<Rightarrow> note_B outcome" where
  "createNoteViaApi e url note w =
     (if url = [] then (Inl (Error ''Backend API is not configured.''), w)
      else
        (case createNoteOnBackend e url note w of
           (Inr created, w1) \<Rightarrow>
             (let existing = loadLocalNotesReadOnly w1;
                  next = created # filter (\<lambda>n. id_B n \<noteq> id_B created) existing
              in (Inr created, saveLocalNotesCache next w1))
         | (Inl err, w1) \<Rightarrow>
             if isNetworkUnreachableError err then
               (Inl (Error ''Backend is unreachable. Cannot create notes while offline.''), w1)
             else (Inl err, w1)))"

record ui_status_B =
  loading_B :: bool
  error_B :: string
  usingFallback_B :: bool

record app_B =
  notes_B :: "note_B list"
  ui_B :: ui_status_B
  isEditorOpen_B :: bool
  editingId_B :: "string option"
  draft_B :: draft

definition closeEditor_B :: "app_B \<Rightarrow> app_B" where
  "closeEditor_B s =
     s\<lparr>isEditorOpen_B := False, editingId_B := None,
       draft_B := \<lparr> title = [], content = [] \<rparr>\<rparr>"

text \<open>\<open>handleSave\<close>: validation first, then the refusal to edit, then the create.\<close>

definition handleSave_B :: "env \<Rightarrow> string \<Rightarrow> app_B \<Rightarrow> world \<Rightarrow> app_B \<times> world" where
  "handleSave_B e url s w =
     (let validationError = validateDraft (draft_B s)
      in if validationError \<noteq> [] then
           (s\<lparr>ui_B := (ui_B s)\<lparr>error_B := validationError\<rparr>\<rparr>, w)
         else if truthy_id (editingId_B s) then
           (s\<lparr>ui_B := (ui_B s)\<lparr>error_B :=
               ''Editing notes is not supported by the current backend API (GET/POST only).''\<rparr>\<rparr>,
            w)
         else
           (case createNoteViaApi e url (draft_B s) w of
              (Inr created, w1) \<Rightarrow>
                (closeEditor_B
                   (s\<lparr>notes_B := created # notes_B s,
                      ui_B := \<lparr> loading_B = False, error_B = [],
                                usingFallback_B = False \<rparr>\<rparr>), w1)
            | (Inl err, w1) \<Rightarrow>
                (s\<lparr>ui_B := \<lparr> loading_B = False, error_B = message e err,
                              usingFallback_B = usingFallback_B (ui_B s) \<rparr>\<rparr>, w1)))"

section \<open>Orders on the listed notes, and the data of the closed instances\<close>

text \<open>Newest first: no note is followed by one with a later \<open>updatedAt\<close>.\<close>

definition recent_first :: "note_A list \<Rightarrow> bool" where
  "recent_first ns = sorted_wrt (\<lambda>a b. \<not> str_lt (updatedAt_A a) (updatedAt_A b)) ns"

text \<open>The two orders by \<open>createdAt\<close>, the only time a note of variant B carries.\<close>

definition newest_first_B :: "note_B list \<Rightarrow> bool" where
  "newest_first_B ns = sorted_wrt (\<lambda>a b. \<not> str_lt (createdAt_B a) (createdAt_B b)) ns"

definition oldest_first_B :: "note_B list \<Rightarrow> bool" where
  "oldest_first_B ns = sorted_wrt (\<lambda>a b. \<not> str_lt (createdAt_B b) (createdAt_B a)) ns"

text \<open>The ids of the notes a list holds.\<close>

definition ids_A :: "note_A list \<Rightarrow> string set" where
  "ids_A ns = id_A ` set ns"

text \<open>An environment around a given network, and the data of the instances below.\<close>

definition env_with :: "(request \<Rightarrow> fetch_result) \<Rightarrow> env" where
  "env_with f =
     \<lparr> net = f, now = ''2024-01-03T00:00:00.000Z'', rnd = ''ab12'',
       millis = 1704240000000, engine_message = (\<lambda>err. ''engine error'') \<rparr>"

definition net_down :: "request \<Rightarrow> fetch_result" where
  "net_down rq = Rejected"

definition res_json :: "json \<Rightarrow> response" where
  "res_json j =
     \<lparr> status = 200, contentType = Some ''application/json'', bodyText = None,
       bodyJson = Some j \<rparr>"

definition net_json :: "json \<Rightarrow> request \<Rightarrow> fetch_result" where
  "net_json j rq = Responded (res_json j)"

definition world_with :: "stored \<Rightarrow> bool \<Rightarrow> world" where
  "world_with c wr = \<lparr> store = c, writable = wr, sent = [] \<rparr>"

definition get_notes :: "string \<Rightarrow> request" where
  "get_notes url = \<lparr> rq_method = ''GET'', rq_url = url, rq_headers = [], rq_body = None \<rparr>"

definition post_note :: "string \<Rightarrow> draft \<Rightarrow> request" where
  "post_note url d =
     \<lparr> rq_method = ''POST'', rq_url = url, rq_headers = json_headers,
       rq_body = Some (draft_json d) \<rparr>"

definition note_A_at :: "string \<Rightarrow> string \<Rightarrow> note_A" where
  "note_A_at i t =
     \<lparr> id_A = i, title_A = ''t'', content_A = ''c'', updatedAt_A = t, createdAt_A = t \<rparr>"

definition note_B_at :: "string \<Rightarrow> string \<Rightarrow> note_B" where
  "note_B_at i t = \<lparr> id_B = i, title_B = ''t'', content_B = ''c'', createdAt_B = t \<rparr>"

definition app_A_with :: "draft \<Rightarrow> app_A" where
  "app_A_with d =
     \<lparr> notes_A = [], ui_A = \<lparr> loading_A = False, error_A = [] \<rparr>,
       isEditorOpen_A = True, editingId_A = None, draft_A = d \<rparr>"

definition app_B_with :: "draft \<Rightarrow> app_B" where
  "app_B_with d =
     \<lparr> notes_B = [],
       ui_B = \<lparr> loading_B = False, error_B = [], usingFallback_B = False \<rparr>,
       isEditorOpen_B = True, editingId_B = None, draft_B = d \<rparr>"

text \<open>A title of 130 characters: 100 letters and 30 spaces after them.\<close>

definition padded_title :: string where
  "padded_title = replicate 100 (CHR ''a'') @ replicate 30 (CHR '' '')"

definition long_title :: string where
  "long_title = replicate 130 (CHR ''a'')"

text \<open>Two notes of each variant, the older one first.\<close>

definition two_notes_A :: "note_A list" where
  "two_notes_A = [note_A_at ''1'' ''2024-01-01'', note_A_at ''2'' ''2024-01-02'']"

definition two_notes_B :: "note_B list" where
  "two_notes_B = [note_B_at ''1'' ''2024-01-01'', note_B_at ''2'' ''2024-01-02'']"

text \<open>The error \<open>listNotesFromBackend\<close> throws for a response that is not ok.\<close>

definition load_failed :: "response \<Rightarrow> js_error" where
  "load_failed res =
     Error (''Failed to load notes ('' @ show_nat (status res) @ '')''
            @ (if text_or_empty res \<noteq> [] then '': '' @ text_or_empty res else []))"

text \<open>A server error, a page that is not JSON, and a cache of two notes per variant.\<close>

definition res_500 :: response where
  "res_500 = \<lparr> status = 500, contentType = None, bodyText = Some ''down'', bodyJson = None \<rparr>"

definition res_html :: response where
  "res_html =
     \<lparr> status = 200, contentType = Some ''text/html'', bodyText = Some ''<html>'',
       bodyJson = None \<rparr>"

text \<open>A 200 answer with the empty list served as \<open>text/plain\<close>.\<close>

definition res_plain_empty_list :: response where
  "res_plain_empty_list =
     \<lparr> status = 200, contentType = Some ''text/plain'', bodyText = Some ''[]'',
       bodyJson = Some (JArr []) \<rparr>"

definition cache_A :: world where
  "cache_A = world_with (Doc (JArr (map note_json_A two_notes_A))) True"

definition cache_B :: world where
  "cache_B = world_with (Doc (JArr (map note_json_B two_notes_B))) True"

text \<open>Three notes in an order that is neither newest first nor oldest first.\<close>

definition three_A :: "note_A list" where
  "three_A = [note_A_at ''2'' ''2024-01-02'', note_A_at ''3'' ''2024-01-03'',
              note_A_at ''1'' ''2024-01-01'']"

definition three_B :: "note_B list" where
  "three_B = [note_B_at ''2'' ''2024-01-02'', note_B_at ''3'' ''2024-01-03'',
              note_B_at ''1'' ''2024-01-01'']"



definition new_draft :: draft where
  "new_draft = \<lparr> title = ''new'', content = ''text'' \<rparr>"




section \<open>Facts about the model\<close>

lemmas js_defs = trim_def isWhiteSpace_def startsWith_def stripTrailingSlash_def or_else_def
  opt_or_def digit_def nullish_def String_of_def and_then_def truthy_id_def

lemmas env_defs = fetch_def ok_def text_or_empty_def message_def

lemmas A_defs = normalizeNote_A_def nowIso_def generateId_def byUpdatedAt_def
  loadLocalNotes_def note_json_A_def saveLocalNotes_def tryApiFetch_def json_headers_def
  draft_json_def apiListNotes_def apiCreateNote_def apiUpdateNote_def apiDeleteNote_def
  loadNotes_try_def loadNotes_def createNote_try_def createNote_local_def createNote_def
  updateNote_try_def updateNote_local_def updateNote_def
  deleteNote_local_def deleteNote_try_def deleteNote_def

lemmas B_defs = normalizeNote_B_def cached_entry_def loadLocalNotesReadOnly_try_def
  loadLocalNotesReadOnly_def note_json_B_def saveLocalNotesCache_def
  isNetworkUnreachableError_def listNotesFromBackend_def createNoteOnBackend_def
  loadNotesFromApiOrFallback_def createNoteViaApi_def json_headers_def draft_json_def

lemmas example_defs = env_with_def net_down_def net_json_def res_json_def
  world_with_def
  get_notes_def post_note_def note_A_at_def note_B_at_def app_A_with_def app_B_with_def

lemma str_lt_trans: "str_lt a b \<Longrightarrow> str_lt b c \<Longrightarrow> str_lt a c"
proof (induction a b arbitrary: c rule: str_lt.induct)
  case 1
  then show ?case by simp
next
  case (2 b bs)
  then show ?case by (cases c) auto
next
  case (3 a as)
  then show ?case by simp
next
  case (4 a as b bs)
  then show ?case by (cases c) (auto split: if_splits)
qed

lemma str_lt_total: "\<not> str_lt a b \<Longrightarrow> \<not> str_lt b a \<Longrightarrow> a = b"
proof (induction a b rule: str_lt.induct)
  case (4 a as b bs)
  then show ?case by (auto split: if_splits)
qed auto

lemma str_ge_trans: "\<not> str_lt a b \<Longrightarrow> \<not> str_lt b c \<Longrightarrow> \<not> str_lt a c"
  using str_lt_trans str_lt_total by blast

lemma mset_insert_cmp: "mset (insert_cmp cmp x xs) = add_mset x (mset xs)"
  by (induction xs) auto

lemma mset_array_sort: "mset (array_sort cmp xs) = mset xs"
  by (induction xs) (auto simp: mset_insert_cmp)

lemma str_lt_irrefl: "\<not> str_lt a a"
  by (induction a) auto

lemma str_lt_asym: "str_lt a b \<Longrightarrow> \<not> str_lt b a"
  using str_lt_trans str_lt_irrefl by blast

lemma set_insert_cmp: "set (insert_cmp cmp x xs) = insert x (set xs)"
  by (induction xs) auto

lemma recent_first_insert:
  "recent_first xs \<Longrightarrow> recent_first (insert_cmp byUpdatedAt x xs)"
proof (induction xs)
  case Nil
  then show ?case by (simp add: recent_first_def)
next
  case (Cons y ys)
  show ?case
  proof (cases "str_lt (updatedAt_A x) (updatedAt_A y)")
    case True
    with Cons show ?thesis
      by (auto simp: recent_first_def byUpdatedAt_def set_insert_cmp dest: str_lt_asym)
  next
    case False
    with Cons.prems show ?thesis
      by (auto simp: recent_first_def byUpdatedAt_def dest: str_ge_trans)
  qed
qed

lemma recent_first_array_sort: "recent_first (array_sort byUpdatedAt xs)"
  by (induction xs) (auto simp: recent_first_insert, simp add: recent_first_def)

text \<open>What either variant writes for a note, it reads back as that note.\<close>

lemma normalizeNote_A_note_json: "normalizeNote_A e (note_json_A n) = Inr n"
  by (simp add: normalizeNote_A_def note_json_A_def nullish_def String_of_def and_then_def)

lemma map_raise_normalize_A:
  "map_raise (normalizeNote_A e) (map note_json_A ns) = Inr ns"
  by (induction ns) (simp_all add: normalizeNote_A_note_json)

lemma cached_entry_note_json: "cached_entry (note_json_B n) = Inr n"
  by (simp add: cached_entry_def note_json_B_def nullish_def String_of_def and_then_def)

lemma map_raise_cached_entry:
  "map_raise cached_entry (map note_json_B ns) = Inr ns"
  by (induction ns) (simp_all add: cached_entry_note_json)

text \<open>Every raise of a conversion is a TypeError.\<close>

lemma toStr_raises_TypeError:
  "toStr j = Inl err \<Longrightarrow> err = TypeError"
  "toStr_elems js = Inl err \<Longrightarrow> err = TypeError"
  by (induction j and js rule: toStr_toStr_elems.induct)
     (auto split: sum.splits if_splits)

text \<open>An id that is an object with a field \<open>toString\<close> of its own does not convert.\<close>

lemma own_toString_raises:
  "normalizeNote_B (JObj [(''id'', JObj [(''toString'', JNum ''1'')])]) = Inl TypeError"
  by (simp add: normalizeNote_B_def String_of_def and_then_def)

lemma String_of_raises_TypeError: "String_of v = Inl err \<Longrightarrow> err = TypeError"
  using toStr_raises_TypeError(1) by (auto simp: String_of_def split: option.splits)

lemma getProp_raises_TypeError: "getProp j k = Inl err \<Longrightarrow> err = TypeError"
  by (cases j) auto

lemma normalizeNote_A_raises_TypeError:
  "normalizeNote_A e raw = Inl err \<Longrightarrow> err = TypeError"
  by (auto simp: normalizeNote_A_def and_then_def split: sum.splits
        dest: String_of_raises_TypeError getProp_raises_TypeError)

lemma normalizeNote_B_raises_TypeError:
  "normalizeNote_B raw = Inl err \<Longrightarrow> err = TypeError"
  by (auto simp: normalizeNote_B_def and_then_def split: sum.splits
        dest: String_of_raises_TypeError getProp_raises_TypeError)

lemma cached_entry_raises_TypeError: "cached_entry n = Inl err \<Longrightarrow> err = TypeError"
  by (auto simp: cached_entry_def and_then_def split: sum.splits
        dest: String_of_raises_TypeError getProp_raises_TypeError)

lemma map_raise_null:
  assumes "\<And>x err. f x = Inl err \<Longrightarrow> err = TypeError" and "f JNull = Inl TypeError"
  shows "JNull \<in> set xs \<Longrightarrow> map_raise f xs = Inl TypeError"
proof (induction xs)
  case Nil
  then show ?case by simp
next
  case (Cons x xs)
  show ?case
  proof (cases "f x")
    case (Inl err)
    with assms(1) show ?thesis by simp
  next
    case (Inr y)
    with assms(2) have "x \<noteq> JNull" by auto
    with Cons have "map_raise f xs = Inl TypeError" by simp
    with Inr show ?thesis by simp
  qed
qed

text \<open>The record \<open>createNote\<close> and \<open>updateNote\<close> build from strings normalizes to itself.\<close>

lemma normalizeNote_A_strings:
  "normalizeNote_A e (JObj [(''id'', JStr i), (''title'', JStr t), (''content'', JStr c),
                            (''createdAt'', JStr cr), (''updatedAt'', JStr u)])
     = Inr \<lparr> id_A = i, title_A = t, content_A = c, updatedAt_A = u, createdAt_A = cr \<rparr>"
  by (simp add: normalizeNote_A_def nullish_def String_of_def and_then_def)

text \<open>The local reads look at the stored item only.\<close>

lemma loadLocalNotes_sent: "loadLocalNotes e (w\<lparr>sent := x\<rparr>) = loadLocalNotes e w"
  by (simp add: loadLocalNotes_def)

lemma loadLocalNotesReadOnly_sent:
  "loadLocalNotesReadOnly (w\<lparr>sent := x\<rparr>) = loadLocalNotesReadOnly w"
  by (simp add: loadLocalNotesReadOnly_def loadLocalNotesReadOnly_try_def)

section \<open>Validation before any input or output (claim C5)\<close>

text \<open>
  Claim C5, as amended. \<open>validateDraft\<close> measures the title after trimming it. A draft
  whose trimmed title and trimmed content are both empty, or whose trimmed title is
  longer than 120 characters, gets a validation message, and \<open>handleSave\<close> of either
  variant then only sets that message: the world, with its stored item and its list of
  requests, is returned as it was.
\<close>

theorem validation_rejects_before_any_request:
  assumes "(trim (title d) = [] \<and> trim (content d) = []) \<or> 120 < length (trim (title d))"
  shows "validateDraft d =
           (if trim (title d) = [] \<and> trim (content d) = []
            then ''Please add a title or some content.''
            else ''Title is too long (max 120 characters).'')
         \<and> validateDraft d \<noteq> []
         \<and> handleSave_A e apiBase (s\<lparr>draft_A := d\<rparr>) w =
             (s\<lparr>draft_A := d, ui_A := (ui_A s)\<lparr>error_A := validateDraft d\<rparr>\<rparr>, w)
         \<and> handleSave_B e url (t\<lparr>draft_B := d\<rparr>) w =
             (t\<lparr>draft_B := d, ui_B := (ui_B t)\<lparr>error_B := validateDraft d\<rparr>\<rparr>, w)"
proof -
  have v: "validateDraft d =
           (if trim (title d) = [] \<and> trim (content d) = []
            then ''Please add a title or some content.''
            else ''Title is too long (max 120 characters).'')"
    using assms by (auto simp: validateDraft_def or_else_def Let_def)
  then have ne: "validateDraft d \<noteq> []" by simp
  have a: "handleSave_A e apiBase (s\<lparr>draft_A := d\<rparr>) w =
             (s\<lparr>draft_A := d, ui_A := (ui_A s)\<lparr>error_A := validateDraft d\<rparr>\<rparr>, w)"
    using ne by (simp add: handleSave_A_def Let_def)
  have b: "handleSave_B e url (t\<lparr>draft_B := d\<rparr>) w =
             (t\<lparr>draft_B := d, ui_B := (ui_B t)\<lparr>error_B := validateDraft d\<rparr>\<rparr>, w)"
    using ne by (simp add: handleSave_B_def Let_def)
  from v ne a b show ?thesis by blast
qed

text \<open>
  An instance of C5: a title of 130 letters with some content is refused by both
  variants while the network is down, and nothing is sent or stored.
\<close>

theorem validation_rejects_before_any_request_witness:
  "120 < length (trim long_title)
   \<and> validateDraft \<lparr> title = long_title, content = ''x'' \<rparr>
       = ''Title is too long (max 120 characters).''
   \<and> handleSave_A (env_with net_down) ''http://h/api''
        (app_A_with \<lparr> title = long_title, content = ''x'' \<rparr>) (world_with Missing True)
       = ((app_A_with \<lparr> title = long_title, content = ''x'' \<rparr>)
            \<lparr>ui_A := \<lparr> loading_A = False,
                        error_A = ''Title is too long (max 120 characters).'' \<rparr>\<rparr>,
          world_with Missing True)
   \<and> handleSave_B (env_with net_down) ''http://h/api/notes''
        (app_B_with \<lparr> title = long_title, content = ''x'' \<rparr>) (world_with Missing True)
       = ((app_B_with \<lparr> title = long_title, content = ''x'' \<rparr>)
            \<lparr>ui_B := \<lparr> loading_B = False,
                        error_B = ''Title is too long (max 120 characters).'',
                        usingFallback_B = False \<rparr>\<rparr>,
          world_with Missing True)"
proof -
  have h: "120 < length (trim long_title)" by code_simp
  have x: "trim ''x'' = ''x''" by code_simp
  show ?thesis
    using h x validation_rejects_before_any_request
      [of "\<lparr> title = long_title, content = ''x'' \<rparr>"
          "env_with net_down" "''http://h/api''"
          "app_A_with \<lparr> title = long_title, content = ''x'' \<rparr>"
          "world_with Missing True" "''http://h/api/notes''"
          "app_B_with \<lparr> title = long_title, content = ''x'' \<rparr>"]
    by (simp add: app_A_with_def app_B_with_def)
qed

text \<open>
  Against C5 as stated: a title of 130 characters, 100 letters followed by 30 spaces,
  passes \<open>validateDraft\<close> with empty content, and \<open>handleSave\<close> goes on to send the
  create request.
\<close>

theorem padded_title_passes_validation:
  "length padded_title = 130
   \<and> validateDraft \<lparr> title = padded_title, content = [] \<rparr> = []
   \<and> sent (snd (handleSave_B (env_with net_down) ''http://h/api/notes''
              (app_B_with \<lparr> title = padded_title, content = [] \<rparr>) (world_with Missing True)))
      = [post_note ''http://h/api/notes'' \<lparr> title = padded_title, content = [] \<rparr>]"
proof -
  have l: "length padded_title = 130" by (simp add: padded_title_def)
  have v: "validateDraft \<lparr> title = padded_title, content = [] \<rparr> = []" by code_simp
  have h: "sent (snd (handleSave_B (env_with net_down) ''http://h/api/notes''
              (app_B_with \<lparr> title = padded_title, content = [] \<rparr>) (world_with Missing True)))
      = [post_note ''http://h/api/notes'' \<lparr> title = padded_title, content = [] \<rparr>]"
    by (simp add: handleSave_B_def Let_def v app_B_with_def truthy_id_def B_defs env_defs
          example_defs)
  from l v h show ?thesis by blast
qed

section \<open>Reading the cache in variant B (claim C10)\<close>

text \<open>
  \<open>loadLocalNotesReadOnly\<close> returns a list in every state: the empty list when the
  item is missing, is not JSON, is not an array or has a \<open>null\<close> entry; and no note
  it returns has an empty id.
\<close>

lemma map_raise_cached_entry_null:
  "JNull \<in> set xs \<Longrightarrow> map_raise cached_entry xs = Inl TypeError"
  using cached_entry_raises_TypeError
  by (rule map_raise_null) (simp_all add: cached_entry_def and_then_def)

lemma loadLocalNotesReadOnly_unreadable:
  "store w = Missing \<Longrightarrow> loadLocalNotesReadOnly w = []"
  "store w = Garbage s \<Longrightarrow> loadLocalNotesReadOnly w = []"
  "store w = Doc JNull \<Longrightarrow> loadLocalNotesReadOnly w = []"
  "store w = Doc (JBool b) \<Longrightarrow> loadLocalNotesReadOnly w = []"
  "store w = Doc (JNum k) \<Longrightarrow> loadLocalNotesReadOnly w = []"
  "store w = Doc (JStr t) \<Longrightarrow> loadLocalNotesReadOnly w = []"
  "store w = Doc (JObj fs) \<Longrightarrow> loadLocalNotesReadOnly w = []"
  "store w = Doc (JArr xs) \<Longrightarrow> JNull \<in> set xs \<Longrightarrow> loadLocalNotesReadOnly w = []"
  by (simp_all add: loadLocalNotesReadOnly_def loadLocalNotesReadOnly_try_def
        map_raise_cached_entry_null)

lemma loadLocalNotesReadOnly_ids: "n \<in> set (loadLocalNotesReadOnly w) \<Longrightarrow> id_B n \<noteq> []"
  by (auto simp: loadLocalNotesReadOnly_def loadLocalNotesReadOnly_try_def
        split: stored.splits json.splits sum.splits if_splits)

text \<open>
  Claim C10 says that \<open>loadLocalNotesReadOnly\<close> drops the entries without an id. The
  filter runs on the converted id, and \<open>String(undefined)\<close> is the truthy text
  \<open>undefined\<close>: the stored array \<open>[{"title":"x"}]\<close> is read as one note whose id is
  \<open>undefined\<close>.
\<close>

theorem entry_without_id_is_kept:
  "loadLocalNotesReadOnly (world_with (Doc (JArr [JObj [(''title'', JStr ''x'')]])) True)
     = [\<lparr> id_B = ''undefined'', title_B = ''x'', content_B = [], createdAt_B = [] \<rparr>]"
  by (simp add: B_defs js_defs example_defs)

section \<open>Listing with no remote endpoint (claim C2)\<close>

lemma loadLocalNotesReadOnly_written:
  "store w = Doc (JArr (map note_json_B ms)) \<Longrightarrow>
     loadLocalNotesReadOnly w = filter (\<lambda>n. id_B n \<noteq> []) ms"
  by (simp add: loadLocalNotesReadOnly_def loadLocalNotesReadOnly_try_def map_raise_cached_entry)

lemma loadLocalNotes_written:
  "store w = Doc (JArr (map note_json_A ns)) \<Longrightarrow>
     loadLocalNotes e w = Inr (array_sort byUpdatedAt ns)"
  by (simp add: loadLocalNotes_def map_raise_normalize_A)

lemma loadLocalNotes_array:
  assumes "store w = Doc (JArr xs)" and "map_raise (normalizeNote_A e) xs = Inr ns"
  shows "\<exists>listed. loadLocalNotes e w = Inr listed \<and> mset listed = mset ns
           \<and> recent_first listed"
  using assms by (simp add: loadLocalNotes_def mset_array_sort recent_first_array_sort)

lemma map_raise_normalize_A_null:
  "JNull \<in> set xs \<Longrightarrow> map_raise (normalizeNote_A e) xs = Inl TypeError"
  using normalizeNote_A_raises_TypeError
  by (rule map_raise_null) (simp_all add: normalizeNote_A_def and_then_def)

text \<open>
  Claim C2, as amended. With an empty URL either listing returns the world as it was,
  so nothing is fetched and the cache is untouched, and its outcome is that of the
  local read of its variant. Variant B returns a list in every state of the cache,
  marked as a fallback: the empty list when the item is missing, is not JSON, is not an
  array or has a \<open>null\<close> entry, and for an array of notes as the variant writes them,
  those notes with a non-empty id, in the stored order. Variant A returns the empty
  list when the item is missing, is the empty text or is not an array; for an array
  whose entries all normalize, the notes of a cache the variant wrote among them, it
  returns the normalized notes newest first, in some order of those with the same
  \<open>updatedAt\<close>; it raises a SyntaxError on a text that is not empty and not JSON, and a
  TypeError on an array with a \<open>null\<close> entry.
\<close>

theorem listing_without_remote_is_the_local_read:
  "loadNotesFromApiOrFallback e [] w =
     (Inr \<lparr> notes_L = loadLocalNotesReadOnly w, usingFallback = True \<rparr>, w)
   \<and> (store w = Missing \<or> store w = Garbage s \<or> (store w = Doc j \<and> \<not> isArray j)
        \<or> (store w = Doc (JArr xs) \<and> JNull \<in> set xs) \<longrightarrow>
        loadLocalNotesReadOnly w = [])
   \<and> (store w = Doc (JArr (map note_json_B ms)) \<longrightarrow>
        loadLocalNotesReadOnly w = filter (\<lambda>n. id_B n \<noteq> []) ms)
   \<and> loadNotes e [] w = (loadLocalNotes e w, w)
   \<and> (store w = Missing \<or> store w = Garbage [] \<or> (store w = Doc j \<and> \<not> isArray j) \<longrightarrow>
        loadLocalNotes e w = Inr [])
   \<and> (store w = Doc (JArr xs) \<and> map_raise (normalizeNote_A e) xs = Inr ns \<longrightarrow>
        (\<exists>listed. loadLocalNotes e w = Inr listed \<and> mset listed = mset ns
                  \<and> recent_first listed))
   \<and> (store w = Doc (JArr (map note_json_A ns)) \<longrightarrow>
        (\<exists>listed. loadLocalNotes e w = Inr listed \<and> mset listed = mset ns
                  \<and> recent_first listed))
   \<and> (store w = Garbage s \<and> s \<noteq> [] \<longrightarrow> loadLocalNotes e w = Inl SyntaxError)
   \<and> (store w = Doc (JArr xs) \<and> JNull \<in> set xs \<longrightarrow> loadLocalNotes e w = Inl TypeError)"
proof (intro conjI impI)
  show "loadNotesFromApiOrFallback e [] w =
     (Inr \<lparr> notes_L = loadLocalNotesReadOnly w, usingFallback = True \<rparr>, w)"
    by (simp add: loadNotesFromApiOrFallback_def)
next
  assume "store w = Missing \<or> store w = Garbage s \<or> (store w = Doc j \<and> \<not> isArray j)
        \<or> (store w = Doc (JArr xs) \<and> JNull \<in> set xs)"
  then show "loadLocalNotesReadOnly w = []"
    by (cases j) (auto simp: isArray_def loadLocalNotesReadOnly_unreadable)
next
  assume "store w = Doc (JArr (map note_json_B ms))"
  then show "loadLocalNotesReadOnly w = filter (\<lambda>n. id_B n \<noteq> []) ms"
    by (rule loadLocalNotesReadOnly_written)
next
  show "loadNotes e [] w = (loadLocalNotes e w, w)"
    by (simp add: loadNotes_def)
next
  assume "store w = Missing \<or> store w = Garbage [] \<or> (store w = Doc j \<and> \<not> isArray j)"
  then show "loadLocalNotes e w = Inr []"
    by (cases j) (auto simp: isArray_def loadLocalNotes_def)
next
  assume "store w = Doc (JArr xs) \<and> map_raise (normalizeNote_A e) xs = Inr ns"
  then show "\<exists>listed. loadLocalNotes e w = Inr listed \<and> mset listed = mset ns
                  \<and> recent_first listed"
    using loadLocalNotes_array by blast
next
  assume "store w = Doc (JArr (map note_json_A ns))"
  then show "\<exists>listed. loadLocalNotes e w = Inr listed \<and> mset listed = mset ns
                  \<and> recent_first listed"
    using loadLocalNotes_array map_raise_normalize_A by blast
next
  assume "store w = Garbage s \<and> s \<noteq> []"
  then show "loadLocalNotes e w = Inl SyntaxError"
    by (simp add: loadLocalNotes_def)
next
  assume "store w = Doc (JArr xs) \<and> JNull \<in> set xs"
  then show "loadLocalNotes e w = Inl TypeError"
    by (simp add: loadLocalNotes_def map_raise_normalize_A_null)
qed

text \<open>
  An instance of C2: for variant B a missing item and a cache of two notes; for
  variant A a missing item, a cache of two notes, a text that is not JSON and an array
  with a \<open>null\<close> entry.
\<close>

theorem listing_without_remote_is_the_local_read_witness:
  "loadNotesFromApiOrFallback (env_with net_down) [] (world_with Missing True)
    = (Inr \<lparr> notes_L = [], usingFallback = True \<rparr>, world_with Missing True)
   \<and> loadNotesFromApiOrFallback (env_with net_down) [] cache_B
    = (Inr \<lparr> notes_L = two_notes_B, usingFallback = True \<rparr>, cache_B)
   \<and> loadNotes (env_with net_down) [] (world_with Missing True)
    = (Inr [], world_with Missing True)
   \<and> loadNotes (env_with net_down) [] cache_A = (Inr (rev two_notes_A), cache_A)
   \<and> loadNotes (env_with net_down) [] (world_with (Garbage ''{'') True)
    = (Inl SyntaxError, world_with (Garbage ''{'') True)
   \<and> loadNotes (env_with net_down) [] (world_with (Doc (JArr [JNull])) True)
    = (Inl TypeError, world_with (Doc (JArr [JNull])) True)"
proof -
  have m: "store (world_with Missing True) = Missing"
    and g: "store (world_with (Garbage ''{'') True) = Garbage ''{''"
    and n: "store (world_with (Doc (JArr [JNull])) True) = Doc (JArr [JNull])"
    and a: "store cache_A = Doc (JArr (map note_json_A two_notes_A))"
    and b: "store cache_B = Doc (JArr (map note_json_B two_notes_B))"
    by (simp_all add: world_with_def cache_A_def cache_B_def)
  have r: "loadLocalNotes (env_with net_down) cache_A = Inr (rev two_notes_A)"
    using loadLocalNotes_written [OF a]
    by (simp add: two_notes_A_def note_A_at_def byUpdatedAt_def)
  show ?thesis
    using m g n a b r
      listing_without_remote_is_the_local_read
        [of "env_with net_down" "world_with Missing True" "[]" JNull "[]" "[]" "[]"]
      listing_without_remote_is_the_local_read
        [of "env_with net_down" cache_B "[]" JNull "[]" two_notes_B "[]"]
      listing_without_remote_is_the_local_read
        [of "env_with net_down" cache_A "[]" JNull "map note_json_A two_notes_A" "[]"
            two_notes_A]
      listing_without_remote_is_the_local_read
        [of "env_with net_down" "world_with (Garbage ''{'') True" "''{''" JNull "[]" "[]" "[]"]
      listing_without_remote_is_the_local_read
        [of "env_with net_down" "world_with (Doc (JArr [JNull])) True" "[]" JNull "[JNull]"
            "[]" "[]"]
    by (simp add: two_notes_B_def note_B_at_def)
qed

text \<open>
  Against C2 as stated, which speaks of every state of the cache: when the stored text
  is not JSON, the listing of variant A with no remote configured raises instead of
  returning.
\<close>

theorem unreadable_cache_makes_local_listing_raise:
  "loadNotes (env_with net_down) [] (world_with (Garbage ''oops'') True)
     = (Inl SyntaxError, world_with (Garbage ''oops'') True)"
  by (simp add: loadNotes_def loadLocalNotes_def world_with_def)

section \<open>Listing against an unreachable remote (claim C4)\<close>

lemma fetch_rejected:
  "net e rq = Rejected \<Longrightarrow> fetch e rq w = (Inl TypeError, w\<lparr>sent := sent w @ [rq]\<rparr>)"
  by (simp add: fetch_def)

lemma fetch_responded:
  "net e rq = Responded res \<Longrightarrow> fetch e rq w = (Inr res, w\<lparr>sent := sent w @ [rq]\<rparr>)"
  by (simp add: fetch_def)

lemma tryApiFetch_world:
  "snd (tryApiFetch e rq w) = w\<lparr>sent := sent w @ [rq]\<rparr>"
  by (cases "net e rq") (simp_all add: tryApiFetch_def fetch_def Let_def split: option.splits)

text \<open>
  Claim C4, as amended. When the fetch of the list is rejected, both variants give the
  outcome of their local read on the cache as it was and change nothing but the list of
  requests. Variant B marks the result with \<open>usingFallback = true\<close>; variant A returns
  what \<open>loadLocalNotes\<close> returns, a bare list, or its raise.
\<close>

theorem unreachable_remote_lists_the_cache:
  "(url \<noteq> [] \<and> net e (get_notes url) = Rejected \<longrightarrow>
      loadNotesFromApiOrFallback e url w =
        (Inr \<lparr> notes_L = loadLocalNotesReadOnly w, usingFallback = True \<rparr>,
         w\<lparr>sent := sent w @ [get_notes url]\<rparr>))
   \<and> (apiBase \<noteq> [] \<and> net e (get_notes (apiBase @ ''/notes'')) = Rejected \<longrightarrow>
      loadNotes e apiBase w =
        (loadLocalNotes e w, w\<lparr>sent := sent w @ [get_notes (apiBase @ ''/notes'')]\<rparr>))"
  by (simp add: loadNotesFromApiOrFallback_def listNotesFromBackend_def
        isNetworkUnreachableError_def loadLocalNotesReadOnly_sent loadLocalNotes_sent
        loadNotes_def loadNotes_try_def apiListNotes_def tryApiFetch_def fetch_rejected
        get_notes_def)

text \<open>An instance of C4: the network is down and the cache holds two notes.\<close>

theorem unreachable_remote_lists_the_cache_witness:
  "loadNotesFromApiOrFallback (env_with net_down) ''http://h/api/notes'' cache_B
    = (Inr \<lparr> notes_L = two_notes_B, usingFallback = True \<rparr>,
       cache_B\<lparr>sent := [get_notes ''http://h/api/notes'']\<rparr>)
   \<and> loadNotes (env_with net_down) ''http://h/api'' cache_A
    = (Inr (rev two_notes_A), cache_A\<lparr>sent := [get_notes ''http://h/api/notes'']\<rparr>)"
  using unreachable_remote_lists_the_cache
      [of "''http://h/api/notes''" "env_with net_down" cache_B "[]"]
    unreachable_remote_lists_the_cache
      [of "[]" "env_with net_down" cache_A "''http://h/api''"]
  by (simp add: example_defs cache_A_def cache_B_def two_notes_A_def two_notes_B_def B_defs
        js_defs loadLocalNotes_def normalizeNote_A_def note_json_A_def nowIso_def
        byUpdatedAt_def)

text \<open>
  Against C4 as stated: the result of variant A carries no mark. With the same cache,
  \<open>loadNotes\<close> gives the same outcome when the network is down and when the remote
  answers with the notes the cache holds.
\<close>

theorem fallback_of_loadNotes_carries_no_mark:
  "loadNotes (env_with net_down) ''http://h/api'' cache_A
    = (Inr (rev two_notes_A), cache_A\<lparr>sent := [get_notes ''http://h/api/notes'']\<rparr>)
   \<and> loadNotes (env_with (net_json (JArr (map note_json_A two_notes_A)))) ''http://h/api''
        cache_A
    = (Inr (rev two_notes_A), cache_A\<lparr>sent := [get_notes ''http://h/api/notes'']\<rparr>)"
  by (simp add: example_defs cache_A_def two_notes_A_def A_defs env_defs js_defs)

section \<open>Which failures of a listing fall back (claim C1)\<close>

lemma loadNotes_try_failed_world:
  "fst (loadNotes_try e apiBase w) = Inl err \<Longrightarrow>
     snd (loadNotes_try e apiBase w) = w\<lparr>sent := sent w @ [get_notes (apiBase @ ''/notes'')]\<rparr>"
  using tryApiFetch_world [of e "get_notes (apiBase @ ''/notes'')" w]
  by (auto simp: loadNotes_try_def apiListNotes_def get_notes_def
        split: prod.splits sum.splits)

lemma loadNotes_falls_back:
  assumes "apiBase \<noteq> []" and "fst (loadNotes_try e apiBase w) = Inl err"
  shows "loadNotes e apiBase w =
        (loadLocalNotes e w, w\<lparr>sent := sent w @ [get_notes (apiBase @ ''/notes'')]\<rparr>)"
proof -
  obtain r w1 where r: "loadNotes_try e apiBase w = (r, w1)"
    by (cases "loadNotes_try e apiBase w")
  with assms(2) have "r = Inl err" by simp
  moreover from loadNotes_try_failed_world [OF assms(2)] r
  have "w1 = w\<lparr>sent := sent w @ [get_notes (apiBase @ ''/notes'')]\<rparr>" by simp
  ultimately show ?thesis
    using assms(1) r by (simp add: loadNotes_def loadLocalNotes_sent)
qed

text \<open>
  Claim C1, as amended. In variant B a rejected fetch falls back to the cache, and the
  error \<open>listNotesFromBackend\<close> raises for a status that is not 2xx, or for a body that
  is not JSON, reaches the caller as it is. In variant A every raise inside the \<open>try\<close>
  of \<open>loadNotes\<close> is answered with the local read.
\<close>

theorem only_unreachability_falls_back_in_B_every_failure_in_A:
  "(url \<noteq> [] \<and> net e (get_notes url) = Rejected \<longrightarrow>
      loadNotesFromApiOrFallback e url w =
        (Inr \<lparr> notes_L = loadLocalNotesReadOnly w, usingFallback = True \<rparr>,
         w\<lparr>sent := sent w @ [get_notes url]\<rparr>))
   \<and> (url \<noteq> [] \<and> net e (get_notes url) = Responded res \<and> \<not> ok res \<longrightarrow>
      fst (listNotesFromBackend e url w) = Inl (load_failed res)
      \<and> loadNotesFromApiOrFallback e url w =
          (Inl (load_failed res), w\<lparr>sent := sent w @ [get_notes url]\<rparr>))
   \<and> (url \<noteq> [] \<and> net e (get_notes url) = Responded res \<and> ok res \<and> bodyJson res = None \<longrightarrow>
      fst (listNotesFromBackend e url w) = Inl SyntaxError
      \<and> loadNotesFromApiOrFallback e url w =
          (Inl SyntaxError, w\<lparr>sent := sent w @ [get_notes url]\<rparr>))
   \<and> (apiBase \<noteq> [] \<and> fst (loadNotes_try e apiBase w) = Inl err \<longrightarrow>
      loadNotes e apiBase w =
        (loadLocalNotes e w, w\<lparr>sent := sent w @ [get_notes (apiBase @ ''/notes'')]\<rparr>))"
proof (intro conjI impI)
  assume "url \<noteq> [] \<and> net e (get_notes url) = Rejected"
  then show "loadNotesFromApiOrFallback e url w =
        (Inr \<lparr> notes_L = loadLocalNotesReadOnly w, usingFallback = True \<rparr>,
         w\<lparr>sent := sent w @ [get_notes url]\<rparr>)"
    by (simp add: loadNotesFromApiOrFallback_def listNotesFromBackend_def
        isNetworkUnreachableError_def loadLocalNotesReadOnly_sent fetch_rejected get_notes_def)
next
  assume a: "url \<noteq> [] \<and> net e (get_notes url) = Responded res \<and> \<not> ok res"
  then show "fst (listNotesFromBackend e url w) = Inl (load_failed res)"
    by (simp add: listNotesFromBackend_def fetch_responded get_notes_def load_failed_def Let_def)
  from a show "loadNotesFromApiOrFallback e url w =
          (Inl (load_failed res), w\<lparr>sent := sent w @ [get_notes url]\<rparr>)"
    by (simp add: loadNotesFromApiOrFallback_def listNotesFromBackend_def
        isNetworkUnreachableError_def fetch_responded get_notes_def load_failed_def Let_def)
next
  assume a: "url \<noteq> [] \<and> net e (get_notes url) = Responded res \<and> ok res \<and> bodyJson res = None"
  then show "fst (listNotesFromBackend e url w) = Inl SyntaxError"
    by (simp add: listNotesFromBackend_def fetch_responded get_notes_def)
  from a show "loadNotesFromApiOrFallback e url w =
          (Inl SyntaxError, w\<lparr>sent := sent w @ [get_notes url]\<rparr>)"
    by (simp add: loadNotesFromApiOrFallback_def listNotesFromBackend_def
        isNetworkUnreachableError_def fetch_responded get_notes_def)
next
  assume "apiBase \<noteq> [] \<and> fst (loadNotes_try e apiBase w) = Inl err"
  then show "loadNotes e apiBase w =
        (loadLocalNotes e w, w\<lparr>sent := sent w @ [get_notes (apiBase @ ''/notes'')]\<rparr>)"
    using loadNotes_falls_back by blast
qed

text \<open>
  An instance of C1: variant B with the network down, with a 500 and with a page that
  is not JSON, and variant A with that page.
\<close>

theorem only_unreachability_falls_back_in_B_every_failure_in_A_witness:
  "loadNotesFromApiOrFallback (env_with net_down) ''http://h/api/notes'' cache_B =
     (Inr \<lparr> notes_L = two_notes_B, usingFallback = True \<rparr>,
      cache_B\<lparr>sent := [get_notes ''http://h/api/notes'']\<rparr>)
   \<and> loadNotesFromApiOrFallback (env_with (\<lambda>rq. Responded res_500)) ''http://h/api/notes''
        cache_B =
     (Inl (Error ''Failed to load notes (500): down''),
      cache_B\<lparr>sent := [get_notes ''http://h/api/notes'']\<rparr>)
   \<and> loadNotesFromApiOrFallback (env_with (\<lambda>rq. Responded res_html)) ''http://h/api/notes''
        cache_B =
     (Inl SyntaxError, cache_B\<lparr>sent := [get_notes ''http://h/api/notes'']\<rparr>)
   \<and> fst (loadNotes_try (env_with (\<lambda>rq. Responded res_html)) ''http://h/api'' cache_A) =
       Inl (Error ''API returned non-JSON response. <html>'')
   \<and> loadNotes (env_with (\<lambda>rq. Responded res_html)) ''http://h/api'' cache_A =
     (Inr (rev two_notes_A), cache_A\<lparr>sent := [get_notes ''http://h/api/notes'']\<rparr>)"
proof -
  have t: "fst (loadNotes_try (env_with (\<lambda>rq. Responded res_html)) ''http://h/api'' cache_A) =
       Inl (Error ''API returned non-JSON response. <html>'')"
    by (simp add: A_defs env_defs js_defs example_defs res_html_def cache_A_def)
  show ?thesis
    using t
      only_unreachability_falls_back_in_B_every_failure_in_A
        [of "''http://h/api/notes''" "env_with net_down" cache_B res_500 "[]" TypeError]
      only_unreachability_falls_back_in_B_every_failure_in_A
        [of "''http://h/api/notes''" "env_with (\<lambda>rq. Responded res_500)" cache_B res_500
            "[]" TypeError]
      only_unreachability_falls_back_in_B_every_failure_in_A
        [of "''http://h/api/notes''" "env_with (\<lambda>rq. Responded res_html)" cache_B res_html
            "[]" TypeError]
      only_unreachability_falls_back_in_B_every_failure_in_A
        [of "[]" "env_with (\<lambda>rq. Responded res_html)" cache_A res_html
            "''http://h/api''" "Error ''API returned non-JSON response. <html>''"]
    by (simp add: example_defs cache_A_def cache_B_def two_notes_A_def two_notes_B_def
          res_500_def res_html_def load_failed_def B_defs js_defs env_defs
          loadLocalNotes_def normalizeNote_A_def note_json_A_def nowIso_def byUpdatedAt_def)
qed

text \<open>
  Against C1 as stated: in variant A a 500 from the remote, which is no failure of the
  transport, is not raised to the caller; the listing returns the cache.
\<close>

theorem server_error_falls_back_in_loadNotes:
  "fst (apiListNotes (env_with (\<lambda>rq. Responded res_500)) ''http://h/api'' cache_A)
     = Inl (Error ''API error (500): down'')
   \<and> loadNotes (env_with (\<lambda>rq. Responded res_500)) ''http://h/api'' cache_A
     = (Inr (rev two_notes_A), cache_A\<lparr>sent := [get_notes ''http://h/api/notes'']\<rparr>)"
  by (simp add: A_defs env_defs js_defs example_defs res_500_def cache_A_def two_notes_A_def)

text \<open>
  Variant B takes every TypeError for a failure of the network. Mapping
  \<open>normalizeNote\<close> over a payload with a \<open>null\<close> entry raises one, so a reachable remote
  that answers 200 with \<open>[null]\<close> makes the listing fall back to the cache.
\<close>

lemma null_entry_in_payload_falls_back:
  "loadNotesFromApiOrFallback (env_with (net_json (JArr [JNull]))) ''http://h/api/notes''
      cache_B =
     (Inr \<lparr> notes_L = two_notes_B, usingFallback = True \<rparr>,
      cache_B\<lparr>sent := [get_notes ''http://h/api/notes'']\<rparr>)"
  by (simp add: example_defs cache_B_def two_notes_B_def B_defs js_defs env_defs)

section \<open>A successful listing (claim C3)\<close>

lemma tryApiFetch_json:
  assumes "net e rq = Responded res" and "ok res" and "status res \<noteq> 204"
    and "includes_str (opt_or (contentType res) []) ''application/json''"
    and "bodyJson res = Some j"
  shows "tryApiFetch e rq w = (Inr j, w\<lparr>sent := sent w @ [rq]\<rparr>)"
  using assms by (simp add: tryApiFetch_def fetch_responded Let_def)

lemma includes_json: "includes_str ''application/json'' ''application/json''"
  by (simp add: startsWith_def)

text \<open>
  Claim C3, as amended. For variant B a successful read is a 2xx answer whose body is a
  JSON array whose entries all normalize, to the notes \<open>ms\<close>: the listing returns \<open>ms\<close>
  in the order of the remote, not sorted, and the cache becomes \<open>ms\<close> when the storage
  accepts the write and stays as it was when it refuses. For variant A a successful
  read is a 2xx answer other than 204, declared as \<open>application/json\<close>, whose body is a
  JSON array whose entries all normalize, to the notes \<open>ns\<close>: when the storage accepts
  the write, the cache becomes \<open>ns\<close> in the order of the remote, and the listing
  returns the notes \<open>ns\<close> newest first, in some order of those with the same
  \<open>updatedAt\<close>.
\<close>

theorem successful_listing_caches_and_returns:
  "(url \<noteq> [] \<and> net e (get_notes url) = Responded res \<and> ok res
      \<and> bodyJson res = Some (JArr xs) \<and> map_raise normalizeNote_B xs = Inr ms \<longrightarrow>
      loadNotesFromApiOrFallback e url w =
        (Inr \<lparr> notes_L = ms, usingFallback = False \<rparr>,
         if writable w
         then w\<lparr>sent := sent w @ [get_notes url], store := Doc (JArr (map note_json_B ms))\<rparr>
         else w\<lparr>sent := sent w @ [get_notes url]\<rparr>))
   \<and> (apiBase \<noteq> [] \<and> net e (get_notes (apiBase @ ''/notes'')) = Responded res \<and> ok res
      \<and> status res \<noteq> 204
      \<and> includes_str (opt_or (contentType res) []) ''application/json''
      \<and> bodyJson res = Some (JArr xs) \<and> map_raise (normalizeNote_A e) xs = Inr ns
      \<and> writable w \<longrightarrow>
      (\<exists>listed.
         loadNotes e apiBase w =
           (Inr listed,
            w\<lparr>sent := sent w @ [get_notes (apiBase @ ''/notes'')],
              store := Doc (JArr (map note_json_A ns))\<rparr>)
         \<and> mset listed = mset ns \<and> recent_first listed))"
proof (intro conjI impI)
  assume "url \<noteq> [] \<and> net e (get_notes url) = Responded res \<and> ok res
      \<and> bodyJson res = Some (JArr xs) \<and> map_raise normalizeNote_B xs = Inr ms"
  then show "loadNotesFromApiOrFallback e url w =
        (Inr \<lparr> notes_L = ms, usingFallback = False \<rparr>,
         if writable w
         then w\<lparr>sent := sent w @ [get_notes url], store := Doc (JArr (map note_json_B ms))\<rparr>
         else w\<lparr>sent := sent w @ [get_notes url]\<rparr>)"
    by (simp add: loadNotesFromApiOrFallback_def listNotesFromBackend_def fetch_responded
          get_notes_def saveLocalNotesCache_def)
next
  assume a: "apiBase \<noteq> [] \<and> net e (get_notes (apiBase @ ''/notes'')) = Responded res \<and> ok res
      \<and> status res \<noteq> 204
      \<and> includes_str (opt_or (contentType res) []) ''application/json''
      \<and> bodyJson res = Some (JArr xs) \<and> map_raise (normalizeNote_A e) xs = Inr ns
      \<and> writable w"
  then have "tryApiFetch e (get_notes (apiBase @ ''/notes'')) w =
      (Inr (JArr xs), w\<lparr>sent := sent w @ [get_notes (apiBase @ ''/notes'')]\<rparr>)"
    using tryApiFetch_json by blast
  with a have "loadNotes e apiBase w =
        (Inr (array_sort byUpdatedAt ns),
         w\<lparr>sent := sent w @ [get_notes (apiBase @ ''/notes'')],
           store := Doc (JArr (map note_json_A ns))\<rparr>)"
    by (simp add: loadNotes_def loadNotes_try_def apiListNotes_def saveLocalNotes_def
          get_notes_def)
  moreover have "mset (array_sort byUpdatedAt ns) = mset ns"
    by (rule mset_array_sort)
  moreover have "recent_first (array_sort byUpdatedAt ns)"
    by (rule recent_first_array_sort)
  ultimately show "\<exists>listed.
         loadNotes e apiBase w =
           (Inr listed,
            w\<lparr>sent := sent w @ [get_notes (apiBase @ ''/notes'')],
              store := Doc (JArr (map note_json_A ns))\<rparr>)
         \<and> mset listed = mset ns \<and> recent_first listed"
    by blast
qed

text \<open>
  An instance of C3: the remote lists three notes with three different times, and the
  cache is empty.
\<close>

theorem successful_listing_caches_and_returns_witness:
  "loadNotesFromApiOrFallback (env_with (net_json (JArr (map note_json_B three_B))))
      ''http://h/api/notes'' (world_with Missing True)
    = (Inr \<lparr> notes_L = three_B, usingFallback = False \<rparr>,
       \<lparr> store = Doc (JArr (map note_json_B three_B)), writable = True,
         sent = [get_notes ''http://h/api/notes''] \<rparr>)
   \<and> loadNotes (env_with (net_json (JArr (map note_json_A three_A)))) ''http://h/api''
        (world_with Missing True)
    = (Inr [note_A_at ''3'' ''2024-01-03'', note_A_at ''2'' ''2024-01-02'',
            note_A_at ''1'' ''2024-01-01''],
       \<lparr> store = Doc (JArr (map note_json_A three_A)), writable = True,
         sent = [get_notes ''http://h/api/notes''] \<rparr>)"
proof -
  have b: "map_raise normalizeNote_B (map note_json_B three_B) = Inr three_B"
    by (simp add: three_B_def normalizeNote_B_def note_json_B_def js_defs)
  have l: "loadNotes (env_with (net_json (JArr (map note_json_A three_A)))) ''http://h/api''
        (world_with Missing True)
    = (Inr [note_A_at ''3'' ''2024-01-03'', note_A_at ''2'' ''2024-01-02'',
            note_A_at ''1'' ''2024-01-01''],
       \<lparr> store = Doc (JArr (map note_json_A three_A)), writable = True,
         sent = [get_notes ''http://h/api/notes''] \<rparr>)"
    by (simp add: example_defs three_A_def A_defs env_defs js_defs)
  show ?thesis
    using b l includes_json
      map_raise_normalize_A [of "env_with (net_json (JArr (map note_json_A three_A)))" three_A]
      successful_listing_caches_and_returns
        [of "''http://h/api/notes''" "env_with (net_json (JArr (map note_json_B three_B)))"
            "res_json (JArr (map note_json_B three_B))" "map note_json_B three_B" three_B
            "world_with Missing True" "[]" "[]"]
      successful_listing_caches_and_returns
        [of "[]" "env_with (net_json (JArr (map note_json_A three_A)))"
            "res_json (JArr (map note_json_A three_A))" "map note_json_A three_A" "[]"
            "world_with Missing True" "''http://h/api''" three_A]
    by (simp add: example_defs ok_def opt_or_def or_else_def)
qed

text \<open>
  Against C3 as stated. Variant B returns the three notes in the order of the remote,
  which is neither newest first nor oldest first; and when the storage refuses the
  write, its listing succeeds and the cache stays as it was. Variant A, with two notes
  in the cache, returns those two and leaves the cache as it was when the remote
  answers 200 with the empty list served as \<open>text/plain\<close>, and when the remote lists
  three notes and the storage refuses the write.
\<close>

theorem listing_of_variant_B_is_not_sorted:
  "loadNotesFromApiOrFallback (env_with (net_json (JArr (map note_json_B three_B))))
      ''http://h/api/notes'' (world_with Missing True)
    = (Inr \<lparr> notes_L = three_B, usingFallback = False \<rparr>,
       \<lparr> store = Doc (JArr (map note_json_B three_B)), writable = True,
         sent = [get_notes ''http://h/api/notes''] \<rparr>)
   \<and> \<not> newest_first_B three_B \<and> \<not> oldest_first_B three_B
   \<and> store (snd (loadNotesFromApiOrFallback
                   (env_with (net_json (JArr (map note_json_B three_B))))
                   ''http://h/api/notes'' (world_with Missing False))) = Missing
   \<and> loadNotes (env_with (\<lambda>rq. Responded res_plain_empty_list)) ''http://h/api'' cache_A
    = (Inr (rev two_notes_A), cache_A\<lparr>sent := [get_notes ''http://h/api/notes'']\<rparr>)
   \<and> loadNotes (env_with (net_json (JArr (map note_json_A three_A)))) ''http://h/api''
        (cache_A\<lparr>writable := False\<rparr>)
    = (Inr (rev two_notes_A),
       cache_A\<lparr>writable := False, sent := [get_notes ''http://h/api/notes'']\<rparr>)"
  by (simp add: example_defs three_A_def three_B_def two_notes_A_def cache_A_def
        res_plain_empty_list_def A_defs B_defs js_defs env_defs newest_first_B_def
        oldest_first_B_def)

section \<open>A successful remote create (claim C6)\<close>






section \<open>A create against an unreachable remote (claim C8)\<close>

lemma createNote_local_ok:
  assumes "loadLocalNotes e w = Inr existing" and "writable w"
  shows "createNote_local e d w =
     (Inr \<lparr> id_A = generateId e, title_A = title d, content_A = content d,
              updatedAt_A = now e, createdAt_A = now e \<rparr>,
      w\<lparr>store := Doc (JArr (map note_json_A
          (\<lparr> id_A = generateId e, title_A = title d, content_A = content d,
              updatedAt_A = now e, createdAt_A = now e \<rparr> # existing)))\<rparr>)"
  using assms
  by (simp add: createNote_local_def normalizeNote_A_def nullish_def String_of_def and_then_def
        nowIso_def
        saveLocalNotes_def)

lemma cache_A_read: "loadLocalNotes e cache_A = Inr (rev two_notes_A)"
  using loadLocalNotes_written [of cache_A two_notes_A]
  by (simp add: cache_A_def world_with_def two_notes_A_def note_A_at_def byUpdatedAt_def)

lemma createNote_local_unreadable:
  "loadLocalNotes e w = Inl err \<Longrightarrow> createNote_local e d w = (Inl err, w)"
  by (simp add: createNote_local_def normalizeNote_A_strings)

lemma createNote_local_refused:
  "loadLocalNotes e w = Inr existing \<Longrightarrow> \<not> writable w \<Longrightarrow>
     createNote_local e d w = (Inl QuotaExceededError, w)"
  by (simp add: createNote_local_def normalizeNote_A_strings saveLocalNotes_def)

lemma createNote_try_rejected:
  "net e (post_note (apiBase @ ''/notes'') d) = Rejected \<Longrightarrow>
     createNote_try e apiBase d w =
       (Inl TypeError, w\<lparr>sent := sent w @ [post_note (apiBase @ ''/notes'') d]\<rparr>)"
  by (simp add: createNote_try_def apiCreateNote_def tryApiFetch_def fetch_rejected
        post_note_def)

text \<open>
  Claim C8, as amended. The fetch of a create is rejected. Variant A then creates the
  note locally: when its local read accepts the cache and the storage accepts the
  write, it returns a record with a generated id and the current time and stores it in
  front of the notes it read; when the read raises it raises that error, and when the
  write is refused it raises the error of the storage, the cache unchanged in both
  cases. Variant B refuses with its offline error and leaves the cache as it was.
  Neither does part of the other's policy: variant A never raises the offline error,
  and variant B never writes.
\<close>

theorem offline_create_policy:
  "(apiBase \<noteq> [] \<and> net e (post_note (apiBase @ ''/notes'') d) = Rejected \<longrightarrow>
      createNote e apiBase d w =
        (case loadLocalNotes e w of
           Inl err \<Rightarrow> (Inl err, w\<lparr>sent := sent w @ [post_note (apiBase @ ''/notes'') d]\<rparr>)
         | Inr existing \<Rightarrow>
             if writable w then
               (Inr \<lparr> id_A = generateId e, title_A = title d, content_A = content d,
                        updatedAt_A = now e, createdAt_A = now e \<rparr>,
                w\<lparr>sent := sent w @ [post_note (apiBase @ ''/notes'') d],
                  store := Doc (JArr (map note_json_A
                    (\<lparr> id_A = generateId e, title_A = title d, content_A = content d,
                        updatedAt_A = now e, createdAt_A = now e \<rparr> # existing)))\<rparr>)
             else (Inl QuotaExceededError,
                   w\<lparr>sent := sent w @ [post_note (apiBase @ ''/notes'') d]\<rparr>)))
   \<and> (url \<noteq> [] \<and> net e (post_note url d) = Rejected \<longrightarrow>
      createNoteViaApi e url d w =
        (Inl (Error ''Backend is unreachable. Cannot create notes while offline.''),
         w\<lparr>sent := sent w @ [post_note url d]\<rparr>))"
proof (intro conjI impI)
  assume a: "apiBase \<noteq> [] \<and> net e (post_note (apiBase @ ''/notes'') d) = Rejected"
  let ?w1 = "w\<lparr>sent := sent w @ [post_note (apiBase @ ''/notes'') d]\<rparr>"
  from a have c: "createNote e apiBase d w = createNote_local e d ?w1"
    by (simp add: createNote_def createNote_try_rejected)
  show "createNote e apiBase d w =
        (case loadLocalNotes e w of
           Inl err \<Rightarrow> (Inl err, ?w1)
         | Inr existing \<Rightarrow>
             if writable w then
               (Inr \<lparr> id_A = generateId e, title_A = title d, content_A = content d,
                        updatedAt_A = now e, createdAt_A = now e \<rparr>,
                w\<lparr>sent := sent w @ [post_note (apiBase @ ''/notes'') d],
                  store := Doc (JArr (map note_json_A
                    (\<lparr> id_A = generateId e, title_A = title d, content_A = content d,
                        updatedAt_A = now e, createdAt_A = now e \<rparr> # existing)))\<rparr>)
             else (Inl QuotaExceededError, ?w1))"
  proof (cases "loadLocalNotes e w")
    case (Inl err)
    then have "loadLocalNotes e ?w1 = Inl err" by (simp add: loadLocalNotes_sent)
    with c Inl show ?thesis by (simp add: createNote_local_unreadable)
  next
    case (Inr existing)
    then have r: "loadLocalNotes e ?w1 = Inr existing" by (simp add: loadLocalNotes_sent)
    show ?thesis
    proof (cases "writable w")
      case True
      with c r Inr show ?thesis by (simp add: createNote_local_ok)
    next
      case False
      with c r Inr show ?thesis by (simp add: createNote_local_refused)
    qed
  qed
next
  assume "url \<noteq> [] \<and> net e (post_note url d) = Rejected"
  then show "createNoteViaApi e url d w =
        (Inl (Error ''Backend is unreachable. Cannot create notes while offline.''),
         w\<lparr>sent := sent w @ [post_note url d]\<rparr>)"
    by (simp add: createNoteViaApi_def createNoteOnBackend_def fetch_rejected post_note_def
          isNetworkUnreachableError_def)
qed

text \<open>An instance of C8: the network is down and the cache holds two notes.\<close>

theorem offline_create_policy_witness:
  "createNote (env_with net_down) ''http://h/api'' new_draft cache_A =
     (Inr \<lparr> id_A = ''note_ab12_1704240000000'', title_A = ''new'', content_A = ''text'',
              updatedAt_A = ''2024-01-03T00:00:00.000Z'',
              createdAt_A = ''2024-01-03T00:00:00.000Z'' \<rparr>,
      cache_A\<lparr>sent := [post_note ''http://h/api/notes'' new_draft],
        store := Doc (JArr (map note_json_A
          (\<lparr> id_A = ''note_ab12_1704240000000'', title_A = ''new'', content_A = ''text'',
              updatedAt_A = ''2024-01-03T00:00:00.000Z'',
              createdAt_A = ''2024-01-03T00:00:00.000Z'' \<rparr> # rev two_notes_A)))\<rparr>)
   \<and> createNoteViaApi (env_with net_down) ''http://h/api/notes'' new_draft cache_B =
     (Inl (Error ''Backend is unreachable. Cannot create notes while offline.''),
      cache_B\<lparr>sent := [post_note ''http://h/api/notes'' new_draft]\<rparr>)"
proof -
  have g: "generateId (env_with net_down) = ''note_ab12_1704240000000''"
    by (simp add: generateId_def env_with_def digit_def)
  show ?thesis
    using g cache_A_read [of "env_with net_down"]
      offline_create_policy
        [of "''http://h/api''" "env_with net_down" new_draft cache_A "[]"]
      offline_create_policy
        [of "[]" "env_with net_down" new_draft cache_B "''http://h/api/notes''"]
    by (simp add: env_with_def net_down_def cache_A_def cache_B_def world_with_def
          new_draft_def)
qed

text \<open>
  Against C8 as stated: with the network down, variant A neither caches a local record
  nor refuses with an offline error when the stored text is not JSON, or when the
  storage refuses the write; it raises the error of the storage.
\<close>

theorem offline_create_of_variant_A_can_raise:
  "createNote (env_with net_down) ''http://h/api'' new_draft (world_with (Garbage ''oops'') True)
     = (Inl SyntaxError,
        \<lparr> store = Garbage ''oops'', writable = True,
          sent = [post_note ''http://h/api/notes'' new_draft] \<rparr>)
   \<and> createNote (env_with net_down) ''http://h/api'' new_draft (world_with Missing False)
     = (Inl QuotaExceededError,
        \<lparr> store = Missing, writable = False,
          sent = [post_note ''http://h/api/notes'' new_draft] \<rparr>)"
  by (simp add: A_defs env_defs js_defs example_defs new_draft_def)

section \<open>Deleting locally (claim C9)\<close>

lemma recent_first_filter: "recent_first xs \<Longrightarrow> recent_first (filter P xs)"
  by (simp add: recent_first_def sorted_wrt_filter)

lemma loadLocalNotes_recent_first: "loadLocalNotes e w = Inr ns \<Longrightarrow> recent_first ns"
  using recent_first_array_sort
  by (auto simp: loadLocalNotes_def recent_first_def
        split: stored.splits json.splits sum.splits if_splits)

lemma deleteNote_local_outcome:
  "deleteNote e [] i w =
     (case loadLocalNotes e w of
        Inl err \<Rightarrow> (Inl err, w)
      | Inr ns \<Rightarrow>
          if writable w then
            (Inr (), w\<lparr>store := Doc (JArr (map note_json_A (filter (\<lambda>n. id_A n \<noteq> i) ns)))\<rparr>)
          else (Inl QuotaExceededError, w))"
  by (simp add: deleteNote_def deleteNote_local_def saveLocalNotes_def split: sum.splits)

lemma filter_absent_id: "i \<notin> ids_A ns \<Longrightarrow> filter (\<lambda>n. id_A n \<noteq> i) ns = ns"
  by (induction ns) (auto simp: ids_A_def)

text \<open>
  Claim C9, as amended. With no remote configured, \<open>deleteNote\<close> raises the error of
  the local read or of the refused write and leaves the world as it was, and otherwise
  rewrites the cache with the notes it read, without those of the given id. For a cache
  the read accepts and a storage that accepts the write: a second deletion of the same
  id succeeds and leaves a cache with the same notes as the first, both newest first
  (the order of two notes with the same \<open>updatedAt\<close> is the choice of the engine's
  sort); and the deletion of an id the cache does not hold succeeds and rewrites the
  cache with the notes it held. In every other state a second deletion leaves the cache
  as the first did, unchanged.
\<close>

theorem local_delete_is_idempotent:
  "deleteNote e [] i w =
     (case loadLocalNotes e w of
        Inl err \<Rightarrow> (Inl err, w)
      | Inr ns \<Rightarrow>
          if writable w then
            (Inr (), w\<lparr>store := Doc (JArr (map note_json_A (filter (\<lambda>n. id_A n \<noteq> i) ns)))\<rparr>)
          else (Inl QuotaExceededError, w))
   \<and> (loadLocalNotes e w = Inr ns \<and> writable w \<longrightarrow>
        (\<exists>ns2. deleteNote e [] i (snd (deleteNote e [] i w)) =
                 (Inr (), w\<lparr>store := Doc (JArr (map note_json_A ns2))\<rparr>)
               \<and> mset ns2 = mset (filter (\<lambda>n. id_A n \<noteq> i) ns)
               \<and> recent_first ns2 \<and> recent_first (filter (\<lambda>n. id_A n \<noteq> i) ns)))
   \<and> (loadLocalNotes e w = Inr ns \<and> writable w \<and> i \<notin> ids_A ns \<longrightarrow>
        deleteNote e [] i w = (Inr (), w\<lparr>store := Doc (JArr (map note_json_A ns))\<rparr>))
   \<and> (loadLocalNotes e w = Inl err \<or> \<not> writable w \<longrightarrow>
        snd (deleteNote e [] i w) = w
        \<and> snd (deleteNote e [] i (snd (deleteNote e [] i w))) = w)"
proof (intro conjI impI)
  show "deleteNote e [] i w =
     (case loadLocalNotes e w of
        Inl err \<Rightarrow> (Inl err, w)
      | Inr ns \<Rightarrow>
          if writable w then
            (Inr (), w\<lparr>store := Doc (JArr (map note_json_A (filter (\<lambda>n. id_A n \<noteq> i) ns)))\<rparr>)
          else (Inl QuotaExceededError, w))"
    by (rule deleteNote_local_outcome)
next
  assume a: "loadLocalNotes e w = Inr ns \<and> writable w"
  let ?kept = "filter (\<lambda>n. id_A n \<noteq> i) ns"
  let ?w1 = "w\<lparr>store := Doc (JArr (map note_json_A ?kept))\<rparr>"
  let ?ns2 = "filter (\<lambda>n. id_A n \<noteq> i) (array_sort byUpdatedAt ?kept)"
  from a have 1: "deleteNote e [] i w = (Inr (), ?w1)"
    by (simp add: deleteNote_local_outcome)
  have r: "loadLocalNotes e ?w1 = Inr (array_sort byUpdatedAt ?kept)"
    by (simp add: loadLocalNotes_written)
  from a have 2: "deleteNote e [] i ?w1 = (Inr (), w\<lparr>store := Doc (JArr (map note_json_A ?ns2))\<rparr>)"
    by (simp add: deleteNote_local_outcome r)
  have "filter (\<lambda>n. id_A n \<noteq> i) ?kept = ?kept"
    by simp
  then have m: "mset ?ns2 = mset ?kept"
    by (metis mset_array_sort mset_filter)
  have s2: "recent_first ?ns2"
    by (simp add: recent_first_filter recent_first_array_sort)
  from a have "recent_first ns"
    using loadLocalNotes_recent_first by blast
  then have s1: "recent_first ?kept"
    by (rule recent_first_filter)
  from 1 2 m s1 s2
  show "\<exists>ns2. deleteNote e [] i (snd (deleteNote e [] i w)) =
                 (Inr (), w\<lparr>store := Doc (JArr (map note_json_A ns2))\<rparr>)
               \<and> mset ns2 = mset ?kept \<and> recent_first ns2 \<and> recent_first ?kept"
    by auto
next
  assume "loadLocalNotes e w = Inr ns \<and> writable w \<and> i \<notin> ids_A ns"
  then show "deleteNote e [] i w = (Inr (), w\<lparr>store := Doc (JArr (map note_json_A ns))\<rparr>)"
    by (simp add: deleteNote_local_outcome filter_absent_id)
next
  assume a: "loadLocalNotes e w = Inl err \<or> \<not> writable w"
  then show 1: "snd (deleteNote e [] i w) = w"
    by (auto simp: deleteNote_local_outcome split: sum.splits)
  then show "snd (deleteNote e [] i (snd (deleteNote e [] i w))) = w"
    by simp
qed


text \<open>
  An instance of C9 on the cache of two notes: the note 1 deleted once and twice, the
  absent id 7 deleted, and a deletion the storage refuses.
\<close>

theorem local_delete_is_idempotent_witness:
  "deleteNote (env_with net_down) [] ''1'' cache_A =
     (Inr (), cache_A\<lparr>store := Doc (JArr (map note_json_A [note_A_at ''2'' ''2024-01-02'']))\<rparr>)
   \<and> deleteNote (env_with net_down) [] ''1''
        (cache_A\<lparr>store := Doc (JArr (map note_json_A [note_A_at ''2'' ''2024-01-02'']))\<rparr>) =
     (Inr (), cache_A\<lparr>store := Doc (JArr (map note_json_A [note_A_at ''2'' ''2024-01-02'']))\<rparr>)
   \<and> deleteNote (env_with net_down) [] ''7'' cache_A =
     (Inr (), cache_A\<lparr>store := Doc (JArr (map note_json_A (rev two_notes_A)))\<rparr>)
   \<and> deleteNote (env_with net_down) [] ''1'' (world_with Missing False) =
     (Inl QuotaExceededError, world_with Missing False)"
proof -
  have n: "''7'' \<notin> ids_A (rev two_notes_A)"
    by (simp add: ids_A_def two_notes_A_def note_A_at_def)
  have r: "loadLocalNotes (env_with net_down) (world_with Missing False) = Inr []"
    by (simp add: loadLocalNotes_def world_with_def)
  show ?thesis
    using n r cache_A_read [of "env_with net_down"]
      local_delete_is_idempotent [of "env_with net_down" "''1''" cache_A "rev two_notes_A" TypeError]
      local_delete_is_idempotent
        [of "env_with net_down" "''1''"
            "cache_A\<lparr>store := Doc (JArr (map note_json_A [note_A_at ''2'' ''2024-01-02'']))\<rparr>"
            "[note_A_at ''2'' ''2024-01-02'']" TypeError]
      local_delete_is_idempotent [of "env_with net_down" "''7''" cache_A "rev two_notes_A" TypeError]
      local_delete_is_idempotent
        [of "env_with net_down" "''1''" "world_with Missing False" "[]" TypeError]
    by (simp add: cache_A_def world_with_def two_notes_A_def note_A_at_def loadLocalNotes_def
          normalizeNote_A_def note_json_A_def js_defs nowIso_def)
qed

text \<open>
  Against C9 as stated, which speaks of every cache state: when the stored text is not
  JSON the cache holds no id, and the deletion raises instead of succeeding.
\<close>

theorem local_delete_raises_on_unreadable_cache:
  "deleteNote (env_with net_down) [] ''1'' (world_with (Garbage ''oops'') True)
     = (Inl SyntaxError, world_with (Garbage ''oops'') True)"
  by (simp add: deleteNote_def deleteNote_local_def loadLocalNotes_def world_with_def)

section \<open>Configuration (claim C7)\<close>

lemma listNotesFromBackend_world:
  "snd (listNotesFromBackend e url w) = w\<lparr>sent := sent w @ [get_notes url]\<rparr>"
  by (cases "net e (get_notes url)")
     (simp_all add: listNotesFromBackend_def fetch_def get_notes_def Let_def
        split: option.splits json.splits)

lemma loadNotesFromApiOrFallback_sent:
  assumes "url \<noteq> []"
  shows "sent (snd (loadNotesFromApiOrFallback e url w)) = sent w @ [get_notes url]"
proof -
  obtain r w1 where r: "listNotesFromBackend e url w = (r, w1)"
    by (cases "listNotesFromBackend e url w")
  with listNotesFromBackend_world [of e url w]
  have "w1 = w\<lparr>sent := sent w @ [get_notes url]\<rparr>" by simp
  with assms r show ?thesis
    by (cases r) (simp_all add: loadNotesFromApiOrFallback_def saveLocalNotesCache_def)
qed

lemma loadNotes_try_sent:
  "sent (snd (loadNotes_try e apiBase w)) = sent w @ [get_notes (apiBase @ ''/notes'')]"
  using tryApiFetch_world [of e "get_notes (apiBase @ ''/notes'')" w]
  by (auto simp: loadNotes_try_def apiListNotes_def get_notes_def saveLocalNotes_def
        split: prod.splits sum.splits if_splits)

lemma loadNotes_sent:
  assumes "apiBase \<noteq> []"
  shows "sent (snd (loadNotes e apiBase w)) = sent w @ [get_notes (apiBase @ ''/notes'')]"
proof -
  obtain r w1 where r: "loadNotes_try e apiBase w = (r, w1)"
    by (cases "loadNotes_try e apiBase w")
  with loadNotes_try_sent [of e apiBase w]
  have "sent w1 = sent w @ [get_notes (apiBase @ ''/notes'')]" by simp
  with assms r show ?thesis
    by (cases r) (simp_all add: loadNotes_def)
qed

lemma createNote_local_sent: "sent (snd (createNote_local e d w)) = sent w"
  by (simp add: createNote_local_def saveLocalNotes_def split: sum.splits)

lemma updateNote_local_sent: "sent (snd (updateNote_local e i d w)) = sent w"
  by (simp add: updateNote_local_def saveLocalNotes_def split: sum.splits option.splits)

lemma deleteNote_local_sent: "sent (snd (deleteNote_local e i w)) = sent w"
  by (simp add: deleteNote_local_def saveLocalNotes_def split: sum.splits)

text \<open>
  Claim C7, as amended. In variant B remote mode is on exactly when the host, one
  trailing slash removed, and the path prefix are both non-empty; the URL is then the
  host, the prefix with a leading slash, and \<open>/notes\<close>, and a listing sends its
  request there; when either value is absent the mode is off, the URL is empty, a
  listing reads the cache and a create is refused, both without a request. In variant A
  the base is one of the two values, the path prefix if it is non-empty and the host
  otherwise, with one trailing slash removed; when that base is empty, none of the four
  operations sends a request, and when it is not, a listing sends one.
\<close>

theorem remote_mode_follows_the_environment:
  "apiConfigured (App_config h p) = (stripTrailingSlash (opt_or h []) \<noteq> [] \<and> opt_or p [] \<noteq> [])
   \<and> (apiConfigured (App_config h p) \<longrightarrow>
        notesUrl (App_config h p) =
          stripTrailingSlash (opt_or h [])
          @ (if startsWith (opt_or p []) ''/'' then opt_or p [] else ''/'' @ opt_or p [])
          @ ''/notes'')
   \<and> (h = None \<or> p = None \<longrightarrow> \<not> apiConfigured (App_config h p))
   \<and> (\<not> apiConfigured (App_config h p) \<longrightarrow>
        notesUrl (App_config h p) = []
        \<and> loadNotesFromApiOrFallback e (notesUrl (App_config h p)) w =
            (Inr \<lparr> notes_L = loadLocalNotesReadOnly w, usingFallback = True \<rparr>, w)
        \<and> createNoteViaApi e (notesUrl (App_config h p)) d w =
            (Inl (Error ''Backend API is not configured.''), w))
   \<and> App_apiBase p h =
        stripTrailingSlash (if opt_or p [] \<noteq> [] then opt_or p [] else opt_or h [])
   \<and> (App_apiBase p h = [] \<longrightarrow>
        sent (snd (loadNotes e (App_apiBase p h) w)) = sent w
        \<and> sent (snd (createNote e (App_apiBase p h) d w)) = sent w
        \<and> sent (snd (updateNote e (App_apiBase p h) i d w)) = sent w
        \<and> sent (snd (deleteNote e (App_apiBase p h) i w)) = sent w)
   \<and> (apiConfigured (App_config h p) \<longrightarrow>
        sent (snd (loadNotesFromApiOrFallback e (notesUrl (App_config h p)) w)) =
          sent w @ [get_notes (notesUrl (App_config h p))])
   \<and> (App_apiBase p h \<noteq> [] \<longrightarrow>
        sent (snd (loadNotes e (App_apiBase p h) w)) =
          sent w @ [get_notes (App_apiBase p h @ ''/notes'')])"
proof (intro conjI impI)
  show "apiConfigured (App_config h p) =
      (stripTrailingSlash (opt_or h []) \<noteq> [] \<and> opt_or p [] \<noteq> [])"
    by (simp add: App_config_def Let_def)
next
  assume "apiConfigured (App_config h p)"
  then show "notesUrl (App_config h p) =
          stripTrailingSlash (opt_or h [])
          @ (if startsWith (opt_or p []) ''/'' then opt_or p [] else ''/'' @ opt_or p [])
          @ ''/notes''"
    by (simp add: App_config_def Let_def split: if_splits)
next
  assume "h = None \<or> p = None"
  then show "\<not> apiConfigured (App_config h p)"
    by (auto simp: App_config_def Let_def opt_or_def stripTrailingSlash_def)
next
  assume a: "\<not> apiConfigured (App_config h p)"
  then show u: "notesUrl (App_config h p) = []"
    by (simp add: App_config_def Let_def)
  show "loadNotesFromApiOrFallback e (notesUrl (App_config h p)) w =
            (Inr \<lparr> notes_L = loadLocalNotesReadOnly w, usingFallback = True \<rparr>, w)"
    by (simp add: u loadNotesFromApiOrFallback_def)
  show "createNoteViaApi e (notesUrl (App_config h p)) d w =
            (Inl (Error ''Backend API is not configured.''), w)"
    by (simp add: u createNoteViaApi_def)
next
  show "App_apiBase p h =
        stripTrailingSlash (if opt_or p [] \<noteq> [] then opt_or p [] else opt_or h [])"
    by (simp add: App_apiBase_def Let_def opt_or_def or_else_def split: option.splits)
next
  assume a: "App_apiBase p h = []"
  show "sent (snd (loadNotes e (App_apiBase p h) w)) = sent w"
    by (simp add: a loadNotes_def)
  show "sent (snd (createNote e (App_apiBase p h) d w)) = sent w"
    by (simp add: a createNote_def createNote_local_sent)
  show "sent (snd (updateNote e (App_apiBase p h) i d w)) = sent w"
    by (simp add: a updateNote_def updateNote_local_sent)
  show "sent (snd (deleteNote e (App_apiBase p h) i w)) = sent w"
    by (simp add: a deleteNote_def deleteNote_local_sent)
next
  assume "apiConfigured (App_config h p)"
  then have "notesUrl (App_config h p) \<noteq> []"
    by (simp add: App_config_def Let_def split: if_splits)
  then show "sent (snd (loadNotesFromApiOrFallback e (notesUrl (App_config h p)) w)) =
          sent w @ [get_notes (notesUrl (App_config h p))]"
    by (rule loadNotesFromApiOrFallback_sent)
next
  assume "App_apiBase p h \<noteq> []"
  then show "sent (snd (loadNotes e (App_apiBase p h) w)) =
          sent w @ [get_notes (App_apiBase p h @ ''/notes'')]"
    by (rule loadNotes_sent)
qed

text \<open>
  An instance of C7: both values given, the path prefix missing, and neither given.
\<close>

theorem remote_mode_follows_the_environment_witness:
  "App_config (Some ''http://h/'') (Some ''api'')
     = \<lparr> apiConfigured = True, notesUrl = ''http://h/api/notes'' \<rparr>
   \<and> App_config (Some ''http://h'') None = \<lparr> apiConfigured = False, notesUrl = [] \<rparr>
   \<and> loadNotesFromApiOrFallback (env_with net_down)
        (notesUrl (App_config (Some ''http://h'') None)) cache_B
     = (Inr \<lparr> notes_L = two_notes_B, usingFallback = True \<rparr>, cache_B)
   \<and> createNoteViaApi (env_with net_down)
        (notesUrl (App_config (Some ''http://h'') None)) new_draft cache_B
     = (Inl (Error ''Backend API is not configured.''), cache_B)
   \<and> App_apiBase None None = []
   \<and> sent (snd (createNote (env_with net_down) (App_apiBase None None) new_draft cache_A)) = []
   \<and> sent (snd (deleteNote (env_with net_down) (App_apiBase None None) ''1'' cache_A)) = []
   \<and> sent (snd (loadNotesFromApiOrFallback (env_with net_down)
                  (notesUrl (App_config (Some ''http://h/'') (Some ''api''))) cache_B))
       = [get_notes ''http://h/api/notes'']
   \<and> sent (snd (loadNotes (env_with net_down)
                  (App_apiBase (Some ''http://h/api/'') None) cache_A))
       = [get_notes ''http://h/api/notes'']"
proof -
  have r: "loadLocalNotesReadOnly cache_B = two_notes_B"
    using loadLocalNotesReadOnly_written [of cache_B two_notes_B]
    by (simp add: cache_B_def world_with_def two_notes_B_def note_B_at_def)
  have s: "sent cache_A = []" "sent cache_B = []"
    by (simp_all add: cache_A_def cache_B_def world_with_def)
  show ?thesis
    using r s
      remote_mode_follows_the_environment
        [of "Some ''http://h/''" "Some ''api''" "env_with net_down" cache_B new_draft "''1''"]
      remote_mode_follows_the_environment
        [of None "Some ''http://h/api/''" "env_with net_down" cache_A new_draft "''1''"]
      remote_mode_follows_the_environment
        [of "Some ''http://h''" None "env_with net_down" cache_B new_draft "''1''"]
      remote_mode_follows_the_environment
        [of None None "env_with net_down" cache_A new_draft "''1''"]
    by (simp add: js_defs App_config_def App_apiBase_def)
qed

text \<open>
  Against C7 as stated: in variant A the host alone turns remote mode on, and a listing
  then sends a request; and with both values given the base is the path prefix alone.
\<close>

theorem one_value_enables_remote_mode_in_variant_A:
  "App_apiBase None (Some ''http://h'') = ''http://h''
   \<and> sent (snd (loadNotes (env_with net_down) (App_apiBase None (Some ''http://h''))
                  (world_with Missing True)))
       = [get_notes ''http://h/notes'']
   \<and> App_apiBase (Some ''/api'') (Some ''http://h'') = ''/api''"
  by (simp add: App_apiBase_def js_defs A_defs env_defs example_defs)

end
